theory Spec2Isabelle
  imports Main
begin

section \<open>Tokens and the peeking lexer\<close>

text \<open>
  The parse nodes of \<^verbatim>\<open>nodes.go\<close> run against a \<^verbatim>\<open>*parseContext\<close> that embeds a
  \<^verbatim>\<open>*lexer.PeekingLexer\<close>. Neither type is defined in \<^verbatim>\<open>nodes.go\<close>; both are
  modelled below from the specification (sections 3, 4.1 and 6).
\<close>

type_synonym rune = int

record Position =
  Filename :: string
  Offset :: int
  Line :: int
  Column :: int

record Token =
  Type :: rune
  Value :: string
  Pos :: Position

text \<open>Modelled from the spec: the token kind of the distinguished end-of-input token
  (\<^verbatim>\<open>lexer.EOF\<close>, package lexer), and the predicate \<^verbatim>\<open>Token.EOF()\<close>.\<close>

definition EOF :: rune where
  "EOF = -1"

definition Token_EOF :: "Token \<Rightarrow> bool" where
  "Token_EOF t \<longleftrightarrow> Type t = EOF"

text \<open>Modelled from the spec: the peeking lexer (package lexer). It holds the whole
  token stream, a raw cursor over all tokens, a cursor counting the non-elided tokens
  consumed, the elided kinds and the end-of-input token that is returned once the
  stream is exhausted.\<close>

record PeekingLexer =
  tokens :: "Token list"
  rawCursor :: nat
  cursor :: nat
  elide :: "rune \<Rightarrow> bool"
  eof :: Token

section \<open>Reflected types and values\<close>

text \<open>
  The engine writes into the AST through Go's \<^verbatim>\<open>reflect\<close> package. A reflected type is
  its package, its name (empty for an unnamed type), its kind and, for a pointer or a
  slice, its element type, for a struct its field types.
\<close>

datatype kind =
  KBool | KInt | KInt8 | KInt16 | KInt32 | KInt64
  | KUint | KUint8 | KUint16 | KUint32 | KUint64
  | KFloat32 | KFloat64 | KString | KStruct | KPtr | KSlice | KOther

datatype rtype = RType (tyPkg: string) (tyName: string) (tyKind: kind) (tySub: "rtype list")

text \<open>A value carries its type. Integers are mathematical integers kept inside the
  range of their kind by the setters; a float is an opaque bit pattern (floating-point
  arithmetic is a parameter of the development); a pointer is nil or the address of a
  heap cell.\<close>

datatype gval =
  VBool rtype bool
  | VInt rtype int
  | VUint rtype int
  | VFloat rtype nat
  | VString rtype string
  | VStruct rtype "gval list"
  | VPtr rtype "nat option"
  | VSlice rtype "gval list"
  | VOther rtype

fun gtype :: "gval \<Rightarrow> rtype" where
  "gtype (VBool t b) = t"
| "gtype (VInt t n) = t"
| "gtype (VUint t n) = t"
| "gtype (VFloat t x) = t"
| "gtype (VString t s) = t"
| "gtype (VStruct t fs) = t"
| "gtype (VPtr t a) = t"
| "gtype (VSlice t xs) = t"
| "gtype (VOther t) = t"

definition gkind :: "gval \<Rightarrow> kind" where
  "gkind v = tyKind (gtype v)"

text \<open>A \<^verbatim>\<open>reflect.Value\<close> handle in a captured-value list: an immediate, non-addressable
  value (\<^verbatim>\<open>reflect.ValueOf(token.Value)\<close>) or the addressable content of a heap cell
  (\<^verbatim>\<open>reflect.New(t).Elem()\<close>).\<close>

datatype rvalue = Imm gval | Cell nat

type_synonym heap = "gval list"

definition stringType :: rtype where
  "stringType = RType [] ''string'' KString []"

definition boolType :: rtype where
  "boolType = RType [] ''bool'' KBool []"

definition intType :: rtype where
  "intType = RType [] ''int'' KInt []"

definition int32Type :: rtype where
  "int32Type = RType [] ''int32'' KInt32 []"

definition positionType :: rtype where
  "positionType = RType ''lexer'' ''Position'' KStruct [stringType, intType, intType, intType]"

definition tokenType :: rtype where
  "tokenType = RType ''lexer'' ''Token'' KStruct [int32Type, stringType, positionType]"

definition tokensType :: rtype where
  "tokensType = RType [] [] KSlice [tokenType]"

definition ValueOf_Position :: "Position \<Rightarrow> gval" where
  "ValueOf_Position p =
     VStruct positionType
       [VString stringType (Filename p), VInt intType (Offset p),
        VInt intType (Line p), VInt intType (Column p)]"

definition ValueOf_Token :: "Token \<Rightarrow> gval" where
  "ValueOf_Token t =
     VStruct tokenType
       [VInt int32Type (Type t), VString stringType (Value t), ValueOf_Position (Pos t)]"

definition ValueOf_Tokens :: "Token list \<Rightarrow> gval" where
  "ValueOf_Tokens ts = VSlice tokensType (map ValueOf_Token ts)"

definition ValueOf_string :: "string \<Rightarrow> rvalue" where
  "ValueOf_string s = Imm (VString stringType s)"

definition ValueOf_bool :: "bool \<Rightarrow> rvalue" where
  "ValueOf_bool b = Imm (VBool boolType b)"

section \<open>Parse nodes, errors and the parse context\<close>

datatype groupMatchMode =
  groupMatchOnce | groupMatchZeroOrOne | groupMatchZeroOrMore
  | groupMatchOneOrMore | groupMatchNonEmpty

text \<open>\<^verbatim>\<open>structLexerField\<close> is declared outside \<^verbatim>\<open>nodes.go\<close>; the nodes read its
  \<^verbatim>\<open>Name\<close> and its \<^verbatim>\<open>Index\<close> path.\<close>

record structLexerField =
  Name :: string
  Index :: "nat list"

text \<open>
  The node kinds of \<^verbatim>\<open>nodes.go\<close>. A \<^verbatim>\<open>*sequence\<close> is a linked list of cells
  \<^verbatim>\<open>{head, node, next}\<close>: it is the list of its cells \<open>(head, node)\<close>, the empty list
  being the nil pointer, and the cell \<open>n\<close> reached by the loop of \<^verbatim>\<open>sequence.Parse\<close>
  is the suffix of the list that starts there. \<open>Strct t e tokensFieldIndex posFieldIndex
  endPosFieldIndex\<close> is a \<^verbatim>\<open>strct\<close> with type \<open>t\<close> and body \<open>e\<close>; an index field is nil
  (\<open>None\<close>) or an index path.
\<close>

datatype node =
  Parseable rtype
  | Strct rtype node "nat list option" "nat list option" "nat list option"
  | Group node groupMatchMode
  | Disjunction "node list"
  | Sequence "(bool \<times> node) list"
  | Capture structLexerField node
  | Reference rune string
  | Optional node
  | Repetition node
  | Literal string rune string
  | Negation node

datatype numError = ErrSyntax | ErrRange | ErrBitSize

text \<open>
  Errors are kept symbolic: one constructor for each place that builds an error, holding
  the arguments of its format string. Where the format prints a node with \<^verbatim>\<open>%s\<close>
  (through \<^verbatim>\<open>String()\<close>, that is \<^verbatim>\<open>ebnf\<close>, which is not in \<^verbatim>\<open>nodes.go\<close>), the node
  itself is kept.
  \<^item> \<open>NextMatch\<close>: the sentinel of \<^verbatim>\<open>Parseable.Parse\<close>;
  \<^item> \<open>UnexpectedTokenError\<close>: the struct literal in \<^verbatim>\<open>sequence.Parse\<close>;
  \<^item> \<open>CannotBeEmpty pos g\<close>: \<^verbatim>\<open>Errorf(pos, "sub-expression %s cannot be empty", g)\<close>;
  \<^item> \<open>MustMatchAtLeastOnce pos g\<close>:
    \<^verbatim>\<open>Errorf(pos, "sub-expression %s must match at least once", g)\<close>;
  \<^item> \<open>TooManyIterations pos n m\<close>: \<^verbatim>\<open>Errorf(pos, "too many iterations of %s (> %d)", n, m)\<close>;
  \<^item> \<open>BranchDidNotProgress pos a pos v\<close>: \<^verbatim>\<open>Errorf(pos, "branch %s was accepted but did
    not progress the lexer at %s (%q)", a, pos, v)\<close>;
  \<^item> \<open>ErrorfUnexpected pos v\<close>: \<^verbatim>\<open>Errorf(pos, "unexpected '%s'", v)\<close> in \<^verbatim>\<open>negation.Parse\<close>;
  \<^item> \<open>InvalidInteger s e\<close>: \<^verbatim>\<open>fmt.Errorf("invalid integer %q: %s", s, e)\<close> in \<^verbatim>\<open>conform\<close>
    (the float case uses the same format);
  \<^item> \<open>NotCorrectType fv t\<close>: \<^verbatim>\<open>fmt.Errorf("value %q is not correct type %s", fv, t)\<close>;
  \<^item> \<open>UnsupportedFieldType t name\<close>:
    \<^verbatim>\<open>fmt.Errorf("unsupported field type %s for field %s", t, name)\<close>;
  \<^item> \<open>Wrapf pos e name\<close> and \<open>ErrorfName name e\<close>: the two wrappers of \<^verbatim>\<open>decorate\<close>;
  \<^item> \<open>UserError\<close>: an error returned by a user method.
\<close>

datatype error =
  NextMatch
  | UnexpectedTokenError (Unexpected: Token) (Expected: node)
  | CannotBeEmpty Position node
  | MustMatchAtLeastOnce Position node
  | TooManyIterations Position node int
  | BranchDidNotProgress Position node Position string
  | ErrorfUnexpected Position string
  | InvalidInteger string numError
  | NotCorrectType rvalue rtype
  | UnsupportedFieldType rtype string
  | Wrapf Position error string
  | ErrorfName string error
  | UserError string

text \<open>A panic carries the error value passed to \<^verbatim>\<open>panic\<close>, or is a panic of the Go
  runtime or of package reflect.\<close>

datatype panicv = PanicError error | RuntimePanic string

datatype 'a res = Panic panicv | Ok 'a

subsection \<open>Operations of the peeking lexer\<close>

fun peekFrom :: "(rune \<Rightarrow> bool) \<Rightarrow> Token \<Rightarrow> Token list \<Rightarrow> nat \<Rightarrow> Token" where
  "peekFrom el e [] n = e"
| "peekFrom el e (t # ts) n =
     (if el (Type t) then peekFrom el e ts n
      else if n = 0 then t
      else peekFrom el e ts (n - 1))"

text \<open>Modelled from the spec: \<^verbatim>\<open>peek(k)\<close>, the token at offset \<open>k\<close> ignoring elided
  kinds. The Go signature returns \<^verbatim>\<open>(Token, error)\<close>; the specified lexer never fails,
  so the error component is always \<open>None\<close>.\<close>

definition Peek :: "PeekingLexer \<Rightarrow> nat \<Rightarrow> Token \<times> error option" where
  "Peek p n = (peekFrom (elide p) (eof p) (drop (rawCursor p) (tokens p)) n, None)"

text \<open>Modelled from the spec: \<^verbatim>\<open>raw_peek(k)\<close>, the same over all tokens.\<close>

definition RawPeek :: "PeekingLexer \<Rightarrow> nat \<Rightarrow> Token \<times> error option" where
  "RawPeek p n =
     (if rawCursor p + n < length (tokens p) then tokens p ! (rawCursor p + n) else eof p,
      None)"

fun nextFrom :: "(rune \<Rightarrow> bool) \<Rightarrow> Token list \<Rightarrow> Token option \<times> nat" where
  "nextFrom el [] = (None, 0)"
| "nextFrom el (t # ts) =
     (if el (Type t) then (case nextFrom el ts of (r, k) \<Rightarrow> (r, Suc k))
      else (Some t, 1))"

text \<open>Modelled from the spec: \<^verbatim>\<open>next()\<close> consumes and returns the next non-elided
  token and advances the cursor; at the end of the stream it returns the end-of-input
  token and the cursor stays.\<close>

definition Next :: "PeekingLexer \<Rightarrow> (Token \<times> error option) \<times> PeekingLexer" where
  "Next p =
     (case nextFrom (elide p) (drop (rawCursor p) (tokens p)) of
        (Some t, k) \<Rightarrow> ((t, None), p\<lparr>rawCursor := rawCursor p + k, cursor := cursor p + 1\<rparr>)
      | (None, k) \<Rightarrow> ((eof p, None), p\<lparr>rawCursor := rawCursor p + k\<rparr>))"

text \<open>Modelled from the spec: \<^verbatim>\<open>range(start, end)\<close>, the tokens in \<open>[start, end)\<close>.\<close>

definition Range :: "PeekingLexer \<Rightarrow> nat \<Rightarrow> nat \<Rightarrow> Token list" where
  "Range p start end = take (end - start) (drop start (tokens p))"

text \<open>Modelled from the spec: the parse context (its Go type \<^verbatim>\<open>parseContext\<close> is not in
  \<^verbatim>\<open>nodes.go\<close>): the peeking lexer, the deferred capture log, the deepest-error record
  and the per-kind case-insensitive flag.\<close>

record contextFieldSet =
  cfTokens :: "Token list"
  cfStrct :: rvalue
  cfField :: structLexerField
  cfFieldValue :: "rvalue list"

record parseContext =
  lexer :: PeekingLexer
  deepestError :: "error option"
  deepestErrorDepth :: nat
  caseInsensitive :: "rune \<Rightarrow> bool"
  deferred :: "contextFieldSet list"


text \<open>
  What \<^verbatim>\<open>nodes.go\<close> uses and does not define is a parameter of the development:
  \<^item> \<open>MaxIterations\<close>: the package variable (\<open>1000000\<close> unless a caller assigns it);
  \<^item> \<open>IntSize\<close>: \<^verbatim>\<open>strconv.IntSize\<close>, the platform's width of \<^verbatim>\<open>int\<close>;
  \<^item> \<open>Stop\<close>: \<^verbatim>\<open>parseContext.Stop\<close>, for which the specification fixes only a
    minimum contract (section 4.3);
  \<^item> \<open>EqualFold\<close>: \<^verbatim>\<open>strings.EqualFold\<close>;
  \<^item> \<open>ParseFloat\<close> and \<open>FloatAddOne\<close>: \<^verbatim>\<open>strconv.ParseFloat\<close> and the floating-point
    \<^verbatim>\<open>f.Float() + 1\<close> stored at the width of the kind;
  \<^item> \<open>CaptureOf t\<close>, \<open>UnmarshalTextOf t\<close>: the user's \<^verbatim>\<open>Capture\<close> and
    \<^verbatim>\<open>UnmarshalText\<close> methods in the method set of \<^verbatim>\<open>*t\<close>, when there are any; a method
    maps the receiver's content to its new content and an error;
  \<^item> \<open>ParseOf t\<close>: the user's \<^verbatim>\<open>Parseable.Parse\<close> method of \<^verbatim>\<open>*t\<close>, which gets the
    fresh instance and the peeking lexer and may advance the lexer.
\<close>

record env =
  MaxIterations :: int
  IntSize :: nat
  Stop :: "error \<Rightarrow> parseContext \<Rightarrow> parseContext \<Rightarrow> bool"
  EqualFold :: "string \<Rightarrow> string \<Rightarrow> bool"
  ParseFloat :: "string \<Rightarrow> nat \<Rightarrow> nat \<times> numError option"
  FloatAddOne :: "kind \<Rightarrow> nat \<Rightarrow> nat"
  CaptureOf :: "rtype \<Rightarrow> (gval \<Rightarrow> string list \<Rightarrow> gval \<times> error option) option"
  UnmarshalTextOf :: "rtype \<Rightarrow> (gval \<Rightarrow> string \<Rightarrow> gval \<times> error option) option"
  ParseOf :: "rtype \<Rightarrow> gval \<Rightarrow> PeekingLexer \<Rightarrow> gval \<times> PeekingLexer \<times> error option"

subsection \<open>Operations of the parse context\<close>

definition Cursor :: "parseContext \<Rightarrow> nat" where
  "Cursor ctx = cursor (lexer ctx)"

definition RawCursor :: "parseContext \<Rightarrow> nat" where
  "RawCursor ctx = rawCursor (lexer ctx)"

text \<open>Modelled from the spec: \<^verbatim>\<open>branch()\<close>, a fork with the same underlying stream, an
  independent cursor starting at the current position and an empty deferred log.\<close>

definition Branch :: "parseContext \<Rightarrow> parseContext" where
  "Branch ctx = ctx\<lparr>deferred := []\<rparr>"

text \<open>Modelled from the spec: \<^verbatim>\<open>accept(branch)\<close>: parent cursor := branch cursor; parent
  deferred log := parent log ++ branch log.\<close>

definition Accept :: "parseContext \<Rightarrow> parseContext \<Rightarrow> parseContext" where
  "Accept ctx branch = ctx\<lparr>lexer := lexer branch, deferred := deferred ctx @ deferred branch\<rparr>"

text \<open>Modelled from the spec: \<^verbatim>\<open>maybe_update_error(err)\<close>: if the cursor is at or beyond
  the recorded deepest cursor, replace the deepest error.\<close>

definition MaybeUpdateError :: "parseContext \<Rightarrow> error \<Rightarrow> parseContext" where
  "MaybeUpdateError ctx err =
     (if Cursor ctx \<ge> deepestErrorDepth ctx
      then ctx\<lparr>deepestError := Some err, deepestErrorDepth := Cursor ctx\<rparr>
      else ctx)"

text \<open>Modelled from the spec: \<^verbatim>\<open>defer(range, parent_ref, field, values)\<close> enqueues a
  capture to apply on \<^verbatim>\<open>apply()\<close>.\<close>

definition Defer ::
  "parseContext \<Rightarrow> Token list \<Rightarrow> rvalue \<Rightarrow> structLexerField \<Rightarrow> rvalue list \<Rightarrow> parseContext" where
  "Defer ctx toks strct field fieldValue =
     ctx\<lparr>deferred := deferred ctx @
       [\<lparr>cfTokens = toks, cfStrct = strct, cfField = field, cfFieldValue = fieldValue\<rparr>]\<rparr>"

text \<open>Modelled from the spec: one policy that meets the minimum contract of
  \<^verbatim>\<open>stop(err, branch)\<close> exactly: true when the branch consumed at least one non-elided
  token past its start.\<close>

definition stopOnProgress :: "error \<Rightarrow> parseContext \<Rightarrow> parseContext \<Rightarrow> bool" where
  "stopOnProgress err ctx branch \<longleftrightarrow> Cursor branch > Cursor ctx"

section \<open>Reflection helpers\<close>

fun bindR :: "'a res \<Rightarrow> ('a \<Rightarrow> 'b res) \<Rightarrow> 'b res" where
  "bindR (Panic p) f = Panic p"
| "bindR (Ok x) f = f x"

definition isIntKind :: "kind \<Rightarrow> bool" where
  "isIntKind k \<longleftrightarrow> k = KInt \<or> k = KInt8 \<or> k = KInt16 \<or> k = KInt32 \<or> k = KInt64"

definition isUintKind :: "kind \<Rightarrow> bool" where
  "isUintKind k \<longleftrightarrow> k = KUint \<or> k = KUint8 \<or> k = KUint16 \<or> k = KUint32 \<or> k = KUint64"

definition isFloatKind :: "kind \<Rightarrow> bool" where
  "isFloatKind k \<longleftrightarrow> k = KFloat32 \<or> k = KFloat64"

text \<open>\<^verbatim>\<open>reflect.New(t).Elem()\<close> holds the zero value of \<open>t\<close>.\<close>

fun Zero :: "rtype \<Rightarrow> gval" where
  "Zero (RType pkg name k sub) =
     (let t = RType pkg name k sub in
      if k = KBool then VBool t False
      else if isIntKind k then VInt t 0
      else if isUintKind k then VUint t 0
      else if isFloatKind k then VFloat t 0
      else if k = KString then VString t []
      else if k = KStruct then VStruct t (map Zero sub)
      else if k = KPtr then VPtr t None
      else if k = KSlice then VSlice t []
      else VOther t)"

definition New :: "heap \<Rightarrow> rtype \<Rightarrow> nat \<times> heap" where
  "New h t = (length h, h @ [Zero t])"

definition PtrTo :: "rtype \<Rightarrow> rtype" where
  "PtrTo t = RType [] [] KPtr [t]"

definition Elem :: "rtype \<Rightarrow> rtype res" where
  "Elem t = (case tySub t of [e] \<Rightarrow> Ok e | _ \<Rightarrow> Panic (RuntimePanic ''reflect: Elem of invalid type''))"

text \<open>\<^verbatim>\<open>Type.String()\<close>: the qualified name of a named type, or the type literal.\<close>

fun tyString :: "rtype \<Rightarrow> string" where
  "tyString (RType pkg name k sub) =
     (if name \<noteq> [] then (if pkg = [] then name else pkg @ ''.'' @ name)
      else if k = KPtr then ''*'' @ concat (map tyString sub)
      else if k = KSlice then ''[]'' @ concat (map tyString sub)
      else if k = KStruct then ''struct { '' @ concat (map (\<lambda>t. tyString t @ ''; '') sub) @ ''}''
      else [])"

text \<open>\<^verbatim>\<open>Value.String()\<close> does not panic on a value that is not a string: it returns
  \<^verbatim>\<open>"<T Value>"\<close>.\<close>

fun valueString :: "gval \<Rightarrow> string" where
  "valueString (VString t s) = s"
| "valueString v = ''<'' @ tyString (gtype v) @ '' Value>''"

fun retag :: "gval \<Rightarrow> rtype \<Rightarrow> gval" where
  "retag (VBool _ b) t = VBool t b"
| "retag (VInt _ n) t = VInt t n"
| "retag (VUint _ n) t = VUint t n"
| "retag (VFloat _ x) t = VFloat t x"
| "retag (VString _ s) t = VString t s"
| "retag (VStruct _ fs) t = VStruct t fs"
| "retag (VPtr _ a) t = VPtr t a"
| "retag (VSlice _ xs) t = VSlice t xs"
| "retag (VOther _) t = VOther t"

text \<open>\<^verbatim>\<open>v.Convert(t)\<close> between two types of the same kind: scalars of one kind always
  convert; a struct, pointer or slice converts when the underlying types agree, and
  \<^verbatim>\<open>Convert\<close> panics otherwise.\<close>

definition Convert :: "gval \<Rightarrow> rtype \<Rightarrow> gval res" where
  "Convert v t =
     (let k = gkind v in
      if k = KBool \<or> isIntKind k \<or> isUintKind k \<or> isFloatKind k \<or> k = KString
         \<or> tySub (gtype v) = tySub t
      then Ok (retag v t)
      else Panic (RuntimePanic ''reflect.Value.Convert: value cannot be converted''))"

fun fieldAt :: "gval \<Rightarrow> nat list \<Rightarrow> gval option" where
  "fieldAt v [] = Some v"
| "fieldAt (VStruct t fs) (i # p) = (if i < length fs then fieldAt (fs ! i) p else None)"
| "fieldAt v (i # p) = None"

fun setAt :: "gval \<Rightarrow> nat list \<Rightarrow> gval \<Rightarrow> gval" where
  "setAt v [] x = x"
| "setAt (VStruct t fs) (i # p) x = VStruct t (fs[i := setAt (fs ! i) p x])"
| "setAt v (i # p) x = v"

text \<open>An addressable place: a heap cell and a path of struct fields inside it.\<close>

type_synonym loc = "nat \<times> nat list"

definition loadLoc :: "heap \<Rightarrow> loc \<Rightarrow> gval option" where
  "loadLoc h l = (case l of (a, p) \<Rightarrow> if a < length h then fieldAt (h ! a) p else None)"

definition storeLoc :: "heap \<Rightarrow> loc \<Rightarrow> gval \<Rightarrow> heap" where
  "storeLoc h l x = (case l of (a, p) \<Rightarrow> h[a := setAt (h ! a) p x])"

definition loadV :: "heap \<Rightarrow> rvalue \<Rightarrow> gval res" where
  "loadV h v =
     (case v of
        Imm g \<Rightarrow> Ok g
      | Cell a \<Rightarrow> if a < length h then Ok (h ! a)
                  else Panic (RuntimePanic ''reflect: call on zero Value''))"

text \<open>\<^verbatim>\<open>Value.FieldByIndex\<close>: one \<^verbatim>\<open>Field\<close> step for each index; after the first step a
  pointer to a struct is followed, and a nil one panics.\<close>

fun fieldByIndexFrom :: "heap \<Rightarrow> loc \<Rightarrow> bool \<Rightarrow> nat list \<Rightarrow> loc res" where
  "fieldByIndexFrom h l first [] = Ok l"
| "fieldByIndexFrom h l first (x # xs) =
     (case loadLoc h l of
        None \<Rightarrow> Panic (RuntimePanic ''reflect: call on zero Value'')
      | Some v \<Rightarrow>
          bindR
            (case v of
               VPtr t None \<Rightarrow>
                 if first then Ok l
                 else Panic (RuntimePanic ''reflect: indirection through nil pointer to embedded struct'')
             | VPtr t (Some a) \<Rightarrow> if first then Ok l else Ok (a, [])
             | _ \<Rightarrow> Ok l)
            (\<lambda>l1.
               case loadLoc h l1 of
                 Some (VStruct t fs) \<Rightarrow>
                   if x < length fs then fieldByIndexFrom h (fst l1, snd l1 @ [x]) False xs
                   else Panic (RuntimePanic ''reflect: Field index out of range'')
               | _ \<Rightarrow> Panic (RuntimePanic ''reflect: call of reflect.Value.Field on non-struct Value'')))"

definition FieldByIndex :: "heap \<Rightarrow> rvalue \<Rightarrow> nat list \<Rightarrow> loc res" where
  "FieldByIndex h v index =
     (case v of
        Cell a \<Rightarrow>
          (case loadLoc h (a, []) of
             Some (VStruct t fs) \<Rightarrow> fieldByIndexFrom h (a, []) True index
           | _ \<Rightarrow> Panic (RuntimePanic ''reflect: call of reflect.Value.FieldByIndex on non-struct Value''))
      | Imm g \<Rightarrow> Panic (RuntimePanic ''reflect: value is not addressable''))"


section \<open>Package strconv\<close>

text \<open>
  \<^verbatim>\<open>conform\<close> calls \<^verbatim>\<open>strconv.ParseInt\<close> and \<^verbatim>\<open>strconv.ParseUint\<close> with base \<open>0\<close>. The
  functions below follow the Go standard library for that base: an optional sign
  (\<^verbatim>\<open>ParseInt\<close> only), a prefix \<^verbatim>\<open>0b\<close>, \<^verbatim>\<open>0o\<close>, \<^verbatim>\<open>0x\<close> or \<^verbatim>\<open>0\<close>, digits, and underscores
  between digits. Like the Go functions they return a value and an error.
\<close>

definition lower :: "char \<Rightarrow> char" where
  "lower c = (let n = (of_char c :: nat) in if (n div 32) mod 2 = 1 then c else char_of (n + 32))"

definition digitVal :: "char \<Rightarrow> nat option" where
  "digitVal c =
     (let n = (of_char c :: nat); l = (of_char (lower c) :: nat) in
      if 48 \<le> n \<and> n \<le> 57 then Some (n - 48)
      else if 97 \<le> l \<and> l \<le> 122 then Some (l - 97 + 10)
      else None)"

fun underscoreLoop :: "bool \<Rightarrow> char \<Rightarrow> string \<Rightarrow> bool" where
  "underscoreLoop hex saw [] = (saw \<noteq> CHR ''_'')"
| "underscoreLoop hex saw (c # cs) =
     (let n = (of_char c :: nat); l = (of_char (lower c) :: nat) in
      if (48 \<le> n \<and> n \<le> 57) \<or> (hex \<and> 97 \<le> l \<and> l \<le> 102) then underscoreLoop hex (CHR ''0'') cs
      else if c = CHR ''_'' then (if saw \<noteq> CHR ''0'' then False else underscoreLoop hex (CHR ''_'') cs)
      else if saw = CHR ''_'' then False
      else underscoreLoop hex (CHR ''!'') cs)"

definition underscoreOK :: "string \<Rightarrow> bool" where
  "underscoreOK s =
     (let s1 = (if length s \<ge> 1 \<and> (hd s = CHR ''-'' \<or> hd s = CHR ''+'') then tl s else s) in
      if length s1 \<ge> 2 \<and> hd s1 = CHR ''0''
         \<and> (lower (s1 ! 1) = CHR ''b'' \<or> lower (s1 ! 1) = CHR ''o'' \<or> lower (s1 ! 1) = CHR ''x'')
      then underscoreLoop (lower (s1 ! 1) = CHR ''x'') (CHR ''0'') (drop 2 s1)
      else underscoreLoop False (CHR ''^'') s1)"

text \<open>The digit loop of \<^verbatim>\<open>ParseUint\<close>: \<open>n\<close> is a \<^verbatim>\<open>uint64\<close>, so \<open>n + d\<close> wraps at \<open>2 ^ 64\<close>.\<close>

fun parseDigits ::
  "nat \<Rightarrow> nat \<Rightarrow> nat \<Rightarrow> string \<Rightarrow> nat \<Rightarrow> bool \<Rightarrow> (nat \<times> bool) \<times> numError option" where
  "parseDigits base cutoff maxVal [] n us = ((n, us), None)"
| "parseDigits base cutoff maxVal (c # cs) n us =
     (if c = CHR ''_'' then parseDigits base cutoff maxVal cs n True
      else case digitVal c of
        None \<Rightarrow> ((0, us), Some ErrSyntax)
      | Some d \<Rightarrow>
          if d \<ge> base then ((0, us), Some ErrSyntax)
          else if n \<ge> cutoff then ((maxVal, us), Some ErrRange)
          else
            (let n0 = n * base; n1 = (n0 + d) mod 2 ^ 64 in
             if n1 < n0 \<or> n1 > maxVal then ((maxVal, us), Some ErrRange)
             else parseDigits base cutoff maxVal cs n1 us))"

definition ParseUint :: "nat \<Rightarrow> string \<Rightarrow> nat \<Rightarrow> nat \<times> numError option" where
  "ParseUint intSize s bitSize =
     (if s = [] then (0, Some ErrSyntax)
      else
        (let (base, s1) =
           (if hd s = CHR ''0'' then
              (if length s \<ge> 3 \<and> lower (s ! 1) = CHR ''b'' then (2, drop 2 s)
               else if length s \<ge> 3 \<and> lower (s ! 1) = CHR ''o'' then (8, drop 2 s)
               else if length s \<ge> 3 \<and> lower (s ! 1) = CHR ''x'' then (16, drop 2 s)
               else (8, drop 1 s))
            else (10, s));
           bits = (if bitSize = 0 then intSize else bitSize)
         in
           if bits > 64 then (0, Some ErrBitSize)
           else
             (case parseDigits base ((2 ^ 64 - 1) div base + 1) (2 ^ bits - 1) s1 0 False of
                ((n, us), Some e) \<Rightarrow> (n, Some e)
              | ((n, us), None) \<Rightarrow>
                  if us \<and> \<not> underscoreOK s then (0, Some ErrSyntax) else (n, None))))"

definition ParseInt :: "nat \<Rightarrow> string \<Rightarrow> nat \<Rightarrow> int \<times> numError option" where
  "ParseInt intSize s bitSize =
     (if s = [] then (0, Some ErrSyntax)
      else
        (let neg = (hd s = CHR ''-'');
             s1 = (if hd s = CHR ''+'' \<or> hd s = CHR ''-'' then tl s else s);
             (un, err) = ParseUint intSize s1 bitSize
         in
           if err \<noteq> None \<and> err \<noteq> Some ErrRange then (0, err)
           else
             (let bits = (if bitSize = 0 then intSize else bitSize);
                  cutoff = (2 :: nat) ^ (bits - 1)
              in
                if \<not> neg \<and> un \<ge> cutoff then (int cutoff - 1, Some ErrRange)
                else if neg \<and> un > cutoff then (- int cutoff, Some ErrRange)
                else (if neg then - int un else int un, None))))"

section \<open>The capture/assignment system: \<^verbatim>\<open>conform\<close> and \<^verbatim>\<open>setField\<close>\<close>

definition sizeOfKind :: "env \<Rightarrow> kind \<Rightarrow> nat res" where
  "sizeOfKind E k =
     (if k = KInt8 \<or> k = KUint8 then Ok 8
      else if k = KInt16 \<or> k = KUint16 then Ok 16
      else if k = KInt32 \<or> k = KUint32 \<or> k = KFloat32 then Ok 32
      else if k = KInt64 \<or> k = KUint64 \<or> k = KFloat64 then Ok 64
      else if k = KInt \<or> k = KUint then Ok (IntSize E)
      else Panic (RuntimePanic ''unsupported kind''))"

text \<open>The width at which package reflect stores an integer of a kind, and the
  truncation of \<^verbatim>\<open>SetInt\<close> and \<^verbatim>\<open>SetUint\<close> to that width.\<close>

definition kindBits :: "env \<Rightarrow> kind \<Rightarrow> nat" where
  "kindBits E k =
     (if k = KInt8 \<or> k = KUint8 then 8
      else if k = KInt16 \<or> k = KUint16 then 16
      else if k = KInt32 \<or> k = KUint32 then 32
      else if k = KInt64 \<or> k = KUint64 then 64
      else IntSize E)"

definition wrapS :: "nat \<Rightarrow> int \<Rightarrow> int" where
  "wrapS b x = (x + 2 ^ (b - 1)) mod 2 ^ b - 2 ^ (b - 1)"

definition wrapU :: "nat \<Rightarrow> int \<Rightarrow> int" where
  "wrapU b x = x mod 2 ^ b"

fun CanAddr :: "rvalue \<Rightarrow> bool" where
  "CanAddr (Imm g) = False"
| "CanAddr (Cell a) = True"

text \<open>
  \<^verbatim>\<open>conform(t, values)\<close>. The accumulator \<open>out\<close> is the named result; the early
  \<^verbatim>\<open>return\<close> inside the pointer loop returns what has been accumulated, with no error.
  The pointer loop runs at most once, since \<^verbatim>\<open>v.Addr()\<close> has kind \<^verbatim>\<open>Ptr\<close>.
\<close>

fun conform ::
  "env \<Rightarrow> heap \<Rightarrow> rtype \<Rightarrow> rvalue list \<Rightarrow> rvalue list \<Rightarrow> (rvalue list \<times> error option) res" where
  "conform E h t [] out = Ok (out, None)"
| "conform E h t (v # vs) out =
     bindR (loadV h v) (\<lambda>g0.
       if t \<noteq> gtype g0 \<and> tyKind t = KPtr \<and> gkind g0 \<noteq> KPtr \<and> \<not> CanAddr v
       then Ok (out, None)
       else
         (let v1 = (if t \<noteq> gtype g0 \<and> tyKind t = KPtr \<and> gkind g0 \<noteq> KPtr
                    then (case v of Cell a \<Rightarrow> Imm (VPtr (PtrTo (gtype g0)) (Some a)) | Imm g \<Rightarrow> v)
                    else v)
          in bindR (loadV h v1) (\<lambda>g1.
            if gkind g1 = tyKind t then
              (if gtype g1 \<noteq> t
               then bindR (Convert g1 t) (\<lambda>c. conform E h t vs (out @ [Imm c]))
               else conform E h t vs (out @ [v1]))
            else
              (let kind = tyKind t in
               if isIntKind kind then
                 bindR (sizeOfKind E kind) (\<lambda>bits.
                   case ParseInt (IntSize E) (valueString g1) bits of
                     (n, Some err) \<Rightarrow> Ok ([], Some (InvalidInteger (valueString g1) err))
                   | (n, None) \<Rightarrow> conform E h t vs (out @ [Imm (VInt t n)]))
               else if isUintKind kind then
                 bindR (sizeOfKind E kind) (\<lambda>bits.
                   case ParseUint (IntSize E) (valueString g1) bits of
                     (n, Some err) \<Rightarrow> Ok ([], Some (InvalidInteger (valueString g1) err))
                   | (n, None) \<Rightarrow> conform E h t vs (out @ [Imm (VUint t (int n))]))
               else if kind = KBool then
                 conform E h t vs (out @ [ValueOf_bool True])
               else if isFloatKind kind then
                 bindR (sizeOfKind E kind) (\<lambda>bits.
                   case ParseFloat E (valueString g1) bits of
                     (n, Some err) \<Rightarrow> Ok ([], Some (InvalidInteger (valueString g1) err))
                   | (n, None) \<Rightarrow> conform E h t vs (out @ [Imm (VFloat t n)]))
               else conform E h t vs (out @ [v1])))))"


text \<open>\<^verbatim>\<open>nearestPos\<close> and \<^verbatim>\<open>decorate\<close>, the deferred wrapper of \<^verbatim>\<open>setField\<close>'s error.\<close>

definition nearestPos :: "Token list \<Rightarrow> Position option" where
  "nearestPos toks = (case toks of [] \<Rightarrow> None | t # _ \<Rightarrow> Some (Pos t))"

definition decorate :: "error option \<Rightarrow> Position option \<Rightarrow> string \<Rightarrow> error option" where
  "decorate err pos name =
     (case err of
        None \<Rightarrow> None
      | Some e \<Rightarrow> (case pos of None \<Rightarrow> Some (ErrorfName name e) | Some p \<Rightarrow> Some (Wrapf p e name)))"

text \<open>\<^verbatim>\<open>v.Interface().(string)\<close>: the type assertion panics unless the dynamic type is
  \<^verbatim>\<open>string\<close> itself.\<close>

definition asString :: "heap \<Rightarrow> rvalue \<Rightarrow> string res" where
  "asString h v =
     bindR (loadV h v) (\<lambda>g.
       case g of
         VString t s \<Rightarrow>
           if t = stringType then Ok s
           else Panic (RuntimePanic ''interface conversion: interface {} is not string'')
       | _ \<Rightarrow> Panic (RuntimePanic ''interface conversion: interface {} is not string''))"

fun asStrings :: "heap \<Rightarrow> rvalue list \<Rightarrow> string list res" where
  "asStrings h [] = Ok []"
| "asStrings h (v # vs) =
     bindR (asString h v) (\<lambda>s. bindR (asStrings h vs) (\<lambda>r. Ok (s # r)))"

definition loadF :: "heap \<Rightarrow> loc \<Rightarrow> gval res" where
  "loadF h f =
     (case loadLoc h f of
        None \<Rightarrow> Panic (RuntimePanic ''reflect: call on zero Value'')
      | Some g \<Rightarrow> Ok g)"

text \<open>The loop over \<^verbatim>\<open>d.UnmarshalText([]byte(v.Interface().(string)))\<close>.\<close>

fun unmarshalAll ::
  "(gval \<Rightarrow> string \<Rightarrow> gval \<times> error option) \<Rightarrow> heap \<Rightarrow> loc \<Rightarrow> rvalue list
     \<Rightarrow> (heap \<times> error option) res" where
  "unmarshalAll um h f [] = Ok (h, None)"
| "unmarshalAll um h f (v # vs) =
     bindR (asString h v) (\<lambda>s.
       bindR (loadF h f) (\<lambda>g.
         case um g s of
           (g', Some err) \<Rightarrow> Ok (storeLoc h f g', Some err)
         | (g', None) \<Rightarrow> unmarshalAll um (storeLoc h f g') f vs))"

text \<open>The slice branch for an element type that implements \<^verbatim>\<open>Capture\<close>: a fresh element
  for each value. A cell is allocated for the fresh element when the slice holds
  pointers; otherwise its content is copied into the slice.\<close>

fun captureSlice ::
  "(gval \<Rightarrow> string list \<Rightarrow> gval \<times> error option) \<Rightarrow> rtype \<Rightarrow> rtype \<Rightarrow> heap \<Rightarrow> loc
     \<Rightarrow> rvalue list \<Rightarrow> (heap \<times> error option) res" where
  "captureSlice cap base et h f [] = Ok (h, None)"
| "captureSlice cap base et h f (v # vs) =
     bindR (asString h v) (\<lambda>s.
       case cap (Zero base) [s] of
         (d, Some err) \<Rightarrow> Ok (h, Some err)
       | (d, None) \<Rightarrow>
           (let h1 = (if tyKind et = KPtr then h @ [d] else h);
                eltValue = (if tyKind et = KPtr then VPtr et (Some (length h)) else d)
            in bindR (loadF h1 f) (\<lambda>cur.
                 case cur of
                   VSlice st xs \<Rightarrow> captureSlice cap base et (storeLoc h1 f (VSlice st (xs @ [eltValue]))) f vs
                 | _ \<Rightarrow> Panic (RuntimePanic ''reflect: call of reflect.Append on non-slice Value''))))"

text \<open>\<^verbatim>\<open>reflect.Append(f, fieldValue...)\<close> panics on a value that is not assignable to
  the element type.\<close>

fun appendValues :: "heap \<Rightarrow> rtype \<Rightarrow> rvalue list \<Rightarrow> gval list res" where
  "appendValues h et [] = Ok []"
| "appendValues h et (v # vs) =
     bindR (loadV h v) (\<lambda>g.
       if gtype g = et then bindR (appendValues h et vs) (\<lambda>r. Ok (g # r))
       else Panic (RuntimePanic ''reflect.Set: value is not assignable to the element type''))"

definition setFieldSlice ::
  "env \<Rightarrow> heap \<Rightarrow> loc \<Rightarrow> gval \<Rightarrow> rvalue list \<Rightarrow> (heap \<times> error option) res" where
  "setFieldSlice E h f fg fieldValue =
     bindR (Elem (gtype fg)) (\<lambda>sliceElemType.
       case (if tyKind sliceElemType = KPtr
             then (case tySub sliceElemType of [u] \<Rightarrow> map_option (\<lambda>c. (c, u)) (CaptureOf E u) | _ \<Rightarrow> None)
             else map_option (\<lambda>c. (c, sliceElemType)) (CaptureOf E sliceElemType)) of
         Some (cap, base) \<Rightarrow> captureSlice cap base sliceElemType h f fieldValue
       | None \<Rightarrow>
           bindR (conform E h sliceElemType fieldValue []) (\<lambda>r.
             case r of
               (fieldValue1, Some err) \<Rightarrow> Ok (h, Some err)
             | (fieldValue1, None) \<Rightarrow>
                 bindR (appendValues h sliceElemType fieldValue1) (\<lambda>gs.
                   case fg of
                     VSlice st xs \<Rightarrow> Ok (storeLoc h f (VSlice st (xs @ gs)), None)
                   | _ \<Rightarrow> Panic (RuntimePanic ''reflect: call of reflect.Append on non-slice Value''))))"

text \<open>Strings concatenate all captured tokens.\<close>

fun concatInto :: "heap \<Rightarrow> loc \<Rightarrow> rvalue list \<Rightarrow> heap res" where
  "concatInto h f [] = Ok h"
| "concatInto h f (v # vs) =
     bindR (loadV h v) (\<lambda>g.
       bindR (loadF h f) (\<lambda>cur.
         concatInto (storeLoc h f (VString (gtype cur) (valueString cur @ valueString g))) f vs))"

definition setFieldString ::
  "env \<Rightarrow> heap \<Rightarrow> loc \<Rightarrow> gval \<Rightarrow> rvalue list \<Rightarrow> (heap \<times> error option) res" where
  "setFieldString E h f fg fieldValue =
     bindR (conform E h (gtype fg) fieldValue []) (\<lambda>r.
       case r of
         (fieldValue1, Some err) \<Rightarrow> Ok (h, Some err)
       | (fieldValue1, None) \<Rightarrow> bindR (concatInto h f fieldValue1) (\<lambda>h1. Ok (h1, None)))"

fun valueStrings :: "heap \<Rightarrow> rvalue list \<Rightarrow> string list res" where
  "valueStrings h [] = Ok []"
| "valueStrings h (v # vs) =
     bindR (loadV h v) (\<lambda>g. bindR (valueStrings h vs) (\<lambda>r. Ok (valueString g # r)))"

text \<open>The switch on \<^verbatim>\<open>f.Kind()\<close> that ends \<^verbatim>\<open>setField\<close>: \<open>fv\<close> is \<^verbatim>\<open>fieldValue[0]\<close>
  and \<open>fvg\<close> its content.\<close>

definition assignScalar ::
  "env \<Rightarrow> heap \<Rightarrow> loc \<Rightarrow> gval \<Rightarrow> structLexerField \<Rightarrow> rvalue \<Rightarrow> gval \<Rightarrow> (heap \<times> error option) res" where
  "assignScalar E h f fg field fv fvg =
     (let k = gkind fg in
      if isIntKind k then
        (if gtype fvg \<noteq> gtype fg then
           (case fg of
              VInt t n \<Rightarrow> Ok (storeLoc h f (VInt t (wrapS (kindBits E k) (wrapS 64 (n + 1)))), None)
            | _ \<Rightarrow> Panic (RuntimePanic ''reflect: call of reflect.Value.Int on non-int Value''))
         else Ok (storeLoc h f fvg, None))
      else if isUintKind k then
        (if gtype fvg \<noteq> gtype fg then
           (case fg of
              VUint t n \<Rightarrow> Ok (storeLoc h f (VUint t (wrapU (kindBits E k) (wrapU 64 (n + 1)))), None)
            | _ \<Rightarrow> Panic (RuntimePanic ''reflect: call of reflect.Value.Uint on non-uint Value''))
         else Ok (storeLoc h f fvg, None))
      else if isFloatKind k then
        (if gtype fvg \<noteq> gtype fg then
           (case fg of
              VFloat t x \<Rightarrow> Ok (storeLoc h f (VFloat t (FloatAddOne E k x)), None)
            | _ \<Rightarrow> Panic (RuntimePanic ''reflect: call of reflect.Value.Float on non-float Value''))
         else Ok (storeLoc h f fvg, None))
      else if k = KBool \<or> k = KStruct then
        (if k = KBool \<and> gkind fvg = KBool then
           (case fvg of
              VBool t b \<Rightarrow> Ok (storeLoc h f (VBool (gtype fg) b), None)
            | _ \<Rightarrow> Panic (RuntimePanic ''reflect: call of reflect.Value.Bool on non-bool Value''))
         else if gtype fvg \<noteq> gtype fg then Ok (h, Some (NotCorrectType fv (gtype fg)))
         else Ok (storeLoc h f fvg, None))
      else Ok (h, Some (UnsupportedFieldType (gtype fg) (Name field))))"

text \<open>The scalar tail of \<^verbatim>\<open>setField\<close>: coalescing, \<^verbatim>\<open>conform\<close>, \<^verbatim>\<open>fieldValue[0]\<close> (which
  panics on an empty list) and the switch on the kind of the field.\<close>

definition setFieldScalar ::
  "env \<Rightarrow> heap \<Rightarrow> loc \<Rightarrow> gval \<Rightarrow> structLexerField \<Rightarrow> rvalue list \<Rightarrow> (heap \<times> error option) res" where
  "setFieldScalar E h f fg field fieldValue =
     bindR (if length fieldValue > 1
            then bindR (valueStrings h fieldValue) (\<lambda>out. Ok [ValueOf_string (concat out)])
            else Ok fieldValue) (\<lambda>fieldValue1.
       bindR (conform E h (gtype fg) fieldValue1 []) (\<lambda>r.
         case r of
           (fieldValue2, Some err) \<Rightarrow> Ok (h, Some err)
         | (fieldValue2, None) \<Rightarrow>
             (case fieldValue2 of
                [] \<Rightarrow> Panic (RuntimePanic ''index out of range [0] with length 0'')
              | fv # _ \<Rightarrow> bindR (loadV h fv) (\<lambda>fvg. assignScalar E h f fg field fv fvg))))"

text \<open>\<^verbatim>\<open>setField\<close> after the field has been located and a pointer hydrated.\<close>

definition setFieldAt ::
  "env \<Rightarrow> Token list \<Rightarrow> structLexerField \<Rightarrow> rvalue list \<Rightarrow> heap \<Rightarrow> loc \<Rightarrow> (heap \<times> error option) res" where
  "setFieldAt E toks field fieldValue h f =
     bindR (loadF h f) (\<lambda>fg.
       if gtype fg = tokenType then
         (case toks of
            [] \<Rightarrow> Panic (RuntimePanic ''index out of range [0] with length 0'')
          | t # _ \<Rightarrow> Ok (storeLoc h f (ValueOf_Token t), None))
       else if gtype fg = tokensType then Ok (storeLoc h f (ValueOf_Tokens toks), None)
       else
         (case CaptureOf E (gtype fg) of
            Some cap \<Rightarrow>
              bindR (asStrings h fieldValue) (\<lambda>ifv.
                case cap fg ifv of (g', err) \<Rightarrow> Ok (storeLoc h f g', err))
          | None \<Rightarrow>
              (case UnmarshalTextOf E (gtype fg) of
                 Some um \<Rightarrow> unmarshalAll um h f fieldValue
               | None \<Rightarrow>
                   if gkind fg = KSlice then setFieldSlice E h f fg fieldValue
                   else if gkind fg = KString then setFieldString E h f fg fieldValue
                   else setFieldScalar E h f fg field fieldValue)))"

definition setField ::
  "env \<Rightarrow> Token list \<Rightarrow> rvalue \<Rightarrow> structLexerField \<Rightarrow> rvalue list \<Rightarrow> heap
     \<Rightarrow> (heap \<times> error option) res" where
  "setField E toks strct field fieldValue h =
     bindR (loadV h strct) (\<lambda>sg.
       bindR
         (bindR (FieldByIndex h strct (Index field)) (\<lambda>f.
            bindR (loadF h f) (\<lambda>fg.
              if gkind fg = KPtr then
                (case fg of
                   VPtr t None \<Rightarrow>
                     bindR (Elem t) (\<lambda>et.
                       case New h et of
                         (a, h1) \<Rightarrow> setFieldAt E toks field fieldValue (storeLoc h1 f (VPtr t (Some a))) (a, []))
                 | VPtr t (Some a) \<Rightarrow> setFieldAt E toks field fieldValue h (a, [])
                 | _ \<Rightarrow> Panic (RuntimePanic ''reflect: call of reflect.Value.IsNil on non-pointer Value''))
              else setFieldAt E toks field fieldValue h f)))
         (\<lambda>r. case r of
            (h', err) \<Rightarrow> Ok (h', decorate err (nearestPos toks) (tyName (gtype sg) @ ''.'' @ Name field))))"

text \<open>Modelled from the spec: \<^verbatim>\<open>apply()\<close> executes the deferred captures in order through
  \<^verbatim>\<open>setField\<close>; on the first failure it aborts and returns the error, the earlier writes
  staying; after a run without failure the log is empty.\<close>

fun applyAll :: "env \<Rightarrow> contextFieldSet list \<Rightarrow> heap \<Rightarrow> (heap \<times> error option) res" where
  "applyAll E [] h = Ok (h, None)"
| "applyAll E (a # as) h =
     bindR (setField E (cfTokens a) (cfStrct a) (cfField a) (cfFieldValue a) h) (\<lambda>r.
       case r of
         (h', Some err) \<Rightarrow> Ok (h', Some err)
       | (h', None) \<Rightarrow> applyAll E as h')"

definition Apply :: "env \<Rightarrow> parseContext \<Rightarrow> heap \<Rightarrow> (parseContext \<times> heap \<times> error option) res" where
  "Apply E ctx h =
     bindR (applyAll E (deferred ctx) h) (\<lambda>r.
       case r of
         (h', Some err) \<Rightarrow> Ok (ctx, h', Some err)
       | (h', None) \<Rightarrow> Ok (ctx\<lparr>deferred := []\<rparr>, h', None))"


section \<open>The parse nodes\<close>

text \<open>
  \<^verbatim>\<open>Parse(ctx, parent)\<close> returns a value list, which may be nil, and an error. The context
  is mutated in place and the AST is written through \<^verbatim>\<open>reflect\<close>, so the model's
  \<open>Parse\<close> also returns the context and the heap; a panic is the result \<open>Panic\<close>.
\<close>

type_synonym presult = "(rvalue list option \<times> error option \<times> parseContext \<times> heap) res"

text \<open>Go's \<^verbatim>\<open>append(out, v...)\<close> on slices that may be nil: appending nothing returns
  \<open>out\<close> itself, so a nil \<open>out\<close> stays nil.\<close>

definition goAppend :: "'a list option \<Rightarrow> 'a list option \<Rightarrow> 'a list option" where
  "goAppend out v =
     (case v of
        None \<Rightarrow> out
      | Some [] \<Rightarrow> out
      | Some (x # xs) \<Rightarrow> Some ((case out of None \<Rightarrow> [] | Some ys \<Rightarrow> ys) @ x # xs))"

text \<open>\<^verbatim>\<open>maybeInjectStartToken\<close>, \<^verbatim>\<open>maybeInjectEndToken\<close> and \<^verbatim>\<open>maybeInjectTokens\<close>:
  nothing for a nil index, otherwise \<^verbatim>\<open>v.FieldByIndex(index).Set(x)\<close>, which panics when
  the types differ.\<close>

definition maybeInject :: "heap \<Rightarrow> rvalue \<Rightarrow> nat list option \<Rightarrow> gval \<Rightarrow> heap res" where
  "maybeInject h v index x =
     (case index of
        None \<Rightarrow> Ok h
      | Some idx \<Rightarrow>
          bindR (FieldByIndex h v idx) (\<lambda>f.
            bindR (loadF h f) (\<lambda>g.
              if gtype g = gtype x then Ok (storeLoc h f x)
              else Panic (RuntimePanic ''reflect.Set: value is not assignable''))))"

text \<open>How a loop of \<^verbatim>\<open>group.Parse\<close> or \<^verbatim>\<open>repetition.Parse\<close> is left: by a
  \<^verbatim>\<open>return\<close> inside the loop, by a \<^verbatim>\<open>break\<close>, or because the loop condition is false.
  The integer is the loop counter at that moment.\<close>

datatype loopExit =
  Returned int "rvalue list option" error parseContext heap
  | Broke int "rvalue list option" parseContext heap
  | Exhausted int "rvalue list option" parseContext heap

function
  Parse :: "env \<Rightarrow> node \<Rightarrow> parseContext \<Rightarrow> rvalue \<Rightarrow> heap \<Rightarrow> presult" and
  groupLoop :: "env \<Rightarrow> node \<Rightarrow> int \<Rightarrow> int \<Rightarrow> parseContext \<Rightarrow> rvalue
                 \<Rightarrow> rvalue list option \<Rightarrow> heap \<Rightarrow> loopExit res" and
  repetitionLoop :: "env \<Rightarrow> node \<Rightarrow> int \<Rightarrow> parseContext \<Rightarrow> rvalue
                 \<Rightarrow> rvalue list option \<Rightarrow> heap \<Rightarrow> loopExit res" and
  disjunctionLoop :: "env \<Rightarrow> node list \<Rightarrow> parseContext \<Rightarrow> rvalue \<Rightarrow> heap
                 \<Rightarrow> nat \<Rightarrow> error option \<Rightarrow> rvalue list option \<Rightarrow> presult" and
  sequenceLoop :: "env \<Rightarrow> (bool \<times> node) list \<Rightarrow> bool \<Rightarrow> parseContext \<Rightarrow> rvalue
                 \<Rightarrow> rvalue list option \<Rightarrow> heap \<Rightarrow> presult"
where
  "Parse E (Parseable t) ctx parent h =
     (case New h t of
        (a, h1) \<Rightarrow>
          (case ParseOf E t (Zero t) (lexer ctx) of
             (g, lx, err) \<Rightarrow>
               (let h2 = storeLoc h1 (a, []) g; ctx1 = ctx\<lparr>lexer := lx\<rparr> in
                case err of
                  Some e \<Rightarrow>
                    if e = NextMatch then Ok (None, None, ctx1, h2)
                    else Ok (None, Some e, ctx1, h2)
                | None \<Rightarrow> Ok (Some [Cell a], None, ctx1, h2))))"
| "Parse E (Strct styp sexpr tokensFieldIndex posFieldIndex endPosFieldIndex) ctx parent h =
     (case New h styp of
        (a, h1) \<Rightarrow>
          (let sv = Cell a; start = RawCursor ctx in
           case Peek (lexer ctx) 0 of
             (t, Some e) \<Rightarrow> Ok (None, Some e, ctx, h1)
           | (t, None) \<Rightarrow>
               bindR (maybeInject h1 sv posFieldIndex (ValueOf_Position (Pos t))) (\<lambda>h2.
                 bindR (Parse E sexpr ctx sv h2) (\<lambda>r.
                   case r of
                     (out, Some err, ctx1, h3) \<Rightarrow>
                       bindR (Apply E ctx1 h3) (\<lambda>ar.
                         case ar of
                           (ctx2, h4, _) \<Rightarrow> Ok (Some [sv], Some err, MaybeUpdateError ctx2 err, h4))
                   | (None, None, ctx1, h3) \<Rightarrow> Ok (None, None, ctx1, h3)
                   | (Some vs, None, ctx1, h3) \<Rightarrow>
                       (let end = RawCursor ctx1; t1 = fst (RawPeek (lexer ctx1) 0) in
                        bindR (maybeInject h3 sv endPosFieldIndex (ValueOf_Position (Pos t1))) (\<lambda>h4.
                          bindR (maybeInject h4 sv tokensFieldIndex
                                   (ValueOf_Tokens (Range (lexer ctx1) start end))) (\<lambda>h5.
                            bindR (Apply E ctx1 h5) (\<lambda>ar.
                              case ar of
                                (ctx2, h6, aerr) \<Rightarrow> Ok (Some [sv], aerr, ctx2, h6)))))))))"
| "Parse E (Group gexpr mode) ctx parent h =
     (if mode = groupMatchNonEmpty then
        bindR (Parse E gexpr ctx parent h) (\<lambda>r.
          case r of
            (out, Some err, ctx1, h1) \<Rightarrow> Ok (out, Some err, ctx1, h1)
          | (out, None, ctx1, h1) \<Rightarrow>
              if out = None \<or> out = Some [] then
                (let t = fst (Peek (lexer ctx1) 0) in
                 Ok (out, Some (CannotBeEmpty (Pos t) (Group gexpr mode)), ctx1, h1))
              else Ok (out, None, ctx1, h1))
      else if mode = groupMatchOnce then Parse E gexpr ctx parent h
      else
        (let gmin = (if mode = groupMatchOneOrMore then 1 else (0 :: int));
             gmax = (if mode = groupMatchZeroOrOne then 1 else MaxIterations E)
         in
           bindR (groupLoop E gexpr gmax 0 ctx parent None h) (\<lambda>l.
             case l of
               Returned matches out err ctx1 h1 \<Rightarrow> Ok (out, Some err, ctx1, h1)
             | Broke matches out ctx1 h1 \<Rightarrow>
                 (let t = fst (Peek (lexer ctx1) 0) in
                  if matches \<ge> MaxIterations E then
                    Panic (PanicError (TooManyIterations (Pos t) (Group gexpr mode) (MaxIterations E)))
                  else if matches < gmin then
                    Ok (out, Some (MustMatchAtLeastOnce (Pos t) (Group gexpr mode)), ctx1, h1)
                  else if gmin = 0 \<and> out = None then Ok (Some [], None, ctx1, h1)
                  else Ok (out, None, ctx1, h1))
             | Exhausted matches out ctx1 h1 \<Rightarrow>
                 (let t = fst (Peek (lexer ctx1) 0) in
                  if matches \<ge> MaxIterations E then
                    Panic (PanicError (TooManyIterations (Pos t) (Group gexpr mode) (MaxIterations E)))
                  else if matches < gmin then
                    Ok (out, Some (MustMatchAtLeastOnce (Pos t) (Group gexpr mode)), ctx1, h1)
                  else if gmin = 0 \<and> out = None then Ok (Some [], None, ctx1, h1)
                  else Ok (out, None, ctx1, h1)))))"
| "groupLoop E gexpr gmax matches ctx parent out h =
     (if matches < gmax then
        bindR (Parse E gexpr (Branch ctx) parent h) (\<lambda>r.
          case r of
            (v, Some err, branch, h1) \<Rightarrow>
              (let out1 = goAppend out v; ctx1 = MaybeUpdateError ctx err in
               if Stop E err ctx1 branch then Ok (Returned matches out1 err ctx1 h1)
               else Ok (Broke matches out1 ctx1 h1))
          | (v, None, branch, h1) \<Rightarrow>
              (let out1 = goAppend out v; ctx1 = Accept ctx branch in
               if v = None then Ok (Broke matches out1 ctx1 h1)
               else groupLoop E gexpr gmax (matches + 1) ctx1 parent out1 h1))
      else Ok (Exhausted matches out ctx h))"
| "Parse E (Disjunction nodes) ctx parent h = disjunctionLoop E nodes ctx parent h 0 None None"
| "disjunctionLoop E [] ctx parent h deepest firstError firstValues =
     (case firstError of
        Some e \<Rightarrow> Ok (firstValues, Some e, MaybeUpdateError ctx e, h)
      | None \<Rightarrow> Ok (None, None, ctx, h))"
| "disjunctionLoop E (a # as) ctx parent h deepest firstError firstValues =
     bindR (Parse E a (Branch ctx) parent h) (\<lambda>r.
       case r of
         (value, Some err, branch, h1) \<Rightarrow>
           if Stop E err ctx branch then Ok (value, Some err, ctx, h1)
           else if Cursor branch \<ge> deepest then
             disjunctionLoop E as ctx parent h1 (Cursor branch) (Some err) value
           else disjunctionLoop E as ctx parent h1 deepest firstError firstValues
       | (None, None, branch, h1) \<Rightarrow>
           disjunctionLoop E as ctx parent h1 deepest firstError firstValues
       | (Some vs, None, branch, h1) \<Rightarrow>
           (let bt = fst (Peek (lexer branch) 0); ct = fst (Peek (lexer ctx) 0) in
            if bt = ct then
              Panic (PanicError (BranchDidNotProgress (Pos bt) a (Pos bt) (Value bt)))
            else Ok (Some vs, None, Accept ctx branch, h1)))"
| "Parse E (Sequence cells) ctx parent h = sequenceLoop E cells True ctx parent None h"
| "sequenceLoop E [] first ctx parent out h = Ok (out, None, ctx, h)"
| "sequenceLoop E (n # rest) first ctx parent out h =
     bindR (Parse E (snd n) ctx parent h) (\<lambda>r.
       case r of
         (child, Some err, ctx1, h1) \<Rightarrow> Ok (goAppend out child, Some err, ctx1, h1)
       | (None, None, ctx1, h1) \<Rightarrow>
           if first then Ok (None, None, ctx1, h1)
           else
             (case Peek (lexer ctx1) 0 of
                (token, Some e) \<Rightarrow> Ok (None, Some e, ctx1, h1)
              | (token, None) \<Rightarrow>
                  Ok (goAppend out None,
                      Some (UnexpectedTokenError token (Sequence (n # rest))), ctx1, h1))
       | (Some vs, None, ctx1, h1) \<Rightarrow>
           sequenceLoop E rest False ctx1 parent (goAppend out (Some vs)) h1)"
| "Parse E (Capture field cnode) ctx parent h =
     (let start = RawCursor ctx in
      bindR (Parse E cnode ctx parent h) (\<lambda>r.
        case r of
          (v, err, ctx1, h1) \<Rightarrow>
            (let ctx2 = (case v of
                           Some vs \<Rightarrow> Defer ctx1 (Range (lexer ctx1) start (RawCursor ctx1)) parent field vs
                         | None \<Rightarrow> ctx1)
             in
               if err \<noteq> None then Ok (Some [parent], err, ctx2, h1)
               else if v = None then Ok (None, None, ctx2, h1)
               else Ok (Some [parent], None, ctx2, h1))))"
| "Parse E (Reference rtyp identifier) ctx parent h =
     (case Peek (lexer ctx) 0 of
        (token, Some e) \<Rightarrow> Ok (None, Some e, ctx, h)
      | (token, None) \<Rightarrow>
          if Type token \<noteq> rtyp then Ok (None, None, ctx, h)
          else Ok (Some [ValueOf_string (Value token)], None, ctx\<lparr>lexer := snd (Next (lexer ctx))\<rparr>, h))"
| "Parse E (Optional onode) ctx parent h =
     bindR (Parse E onode (Branch ctx) parent h) (\<lambda>r.
       case r of
         (out, Some err, branch, h1) \<Rightarrow>
           if Stop E err ctx branch then Ok (out, Some err, ctx, h1)
           else Ok (if out = None then Some [] else out, None, ctx, h1)
       | (out, None, branch, h1) \<Rightarrow>
           Ok (if out = None then Some [] else out, None, Accept ctx branch, h1))"
| "Parse E (Repetition rnode) ctx parent h =
     bindR (repetitionLoop E rnode 0 ctx parent None h) (\<lambda>l.
       case l of
         Returned i out err ctx1 h1 \<Rightarrow> Ok (out, Some err, ctx1, h1)
       | Broke i out ctx1 h1 \<Rightarrow>
           if i \<ge> MaxIterations E then
             Panic (PanicError (TooManyIterations (Pos (fst (Peek (lexer ctx1) 0)))
                      (Repetition rnode) (MaxIterations E)))
           else Ok (if out = None then Some [] else out, None, ctx1, h1)
       | Exhausted i out ctx1 h1 \<Rightarrow>
           if i \<ge> MaxIterations E then
             Panic (PanicError (TooManyIterations (Pos (fst (Peek (lexer ctx1) 0)))
                      (Repetition rnode) (MaxIterations E)))
           else Ok (if out = None then Some [] else out, None, ctx1, h1))"
| "repetitionLoop E rnode i ctx parent out h =
     (if i < MaxIterations E then
        bindR (Parse E rnode (Branch ctx) parent h) (\<lambda>r.
          case r of
            (v, Some err, branch, h1) \<Rightarrow>
              (let out1 = goAppend out v in
               if Stop E err ctx branch then Ok (Returned i out1 err ctx h1)
               else Ok (Broke i out1 ctx h1))
          | (v, None, branch, h1) \<Rightarrow>
              (let out1 = goAppend out v; ctx1 = Accept ctx branch in
               if v = None then Ok (Broke i out1 ctx1 h1)
               else repetitionLoop E rnode (i + 1) ctx1 parent out1 h1))
      else Ok (Exhausted i out ctx h))"
| "Parse E (Literal ls lt ltt) ctx parent h =
     (case Peek (lexer ctx) 0 of
        (token, Some e) \<Rightarrow> Ok (None, Some e, ctx, h)
      | (token, None) \<Rightarrow>
          (let equal = (if caseInsensitive ctx (Type token)
                        then EqualFold E (Value token) ls
                        else Value token = ls)
           in
             if equal \<and> (lt = -1 \<or> lt = Type token) then
               (case Next (lexer ctx) of
                  ((next, Some e), lx) \<Rightarrow> Ok (None, Some e, ctx\<lparr>lexer := lx\<rparr>, h)
                | ((next, None), lx) \<Rightarrow>
                    Ok (Some [ValueOf_string (Value next)], None, ctx\<lparr>lexer := lx\<rparr>, h))
             else Ok (None, None, ctx, h)))"
| "Parse E (Negation nnode) ctx parent h =
     (let branch = Branch ctx in
      case Peek (lexer ctx) 0 of
        (notEOF, Some e) \<Rightarrow> Ok (None, Some e, ctx, h)
      | (notEOF, None) \<Rightarrow>
          if Token_EOF notEOF then Ok (None, None, ctx, h)
          else
            bindR (Parse E nnode branch parent h) (\<lambda>r.
              case r of
                (out, err, branch1, h1) \<Rightarrow>
                  if out \<noteq> None \<and> err = None then
                    Ok (None, Some (ErrorfUnexpected (Pos notEOF) (Value notEOF)), ctx, h1)
                  else
                    (case Next (lexer ctx) of
                       ((next, Some e), lx) \<Rightarrow> Ok (None, Some e, ctx\<lparr>lexer := lx\<rparr>, h1)
                     | ((next, None), lx) \<Rightarrow>
                         Ok (Some [ValueOf_string (Value next)], None, ctx\<lparr>lexer := lx\<rparr>, h1))))"
  by pat_completeness auto


termination
  by (relation "measures
        [\<lambda>x. case x of
               Inl (Inl (E, n, ctx, parent, h)) \<Rightarrow> size n
             | Inl (Inr (E, n, gmax, matches, ctx, parent, out, h)) \<Rightarrow> size n
             | Inr (Inl (E, n, i, ctx, parent, out, h)) \<Rightarrow> size n
             | Inr (Inr (Inl (E, ns, ctx, parent, h, d, fe, fv))) \<Rightarrow> size_list size ns
             | Inr (Inr (Inr (E, cs, first, ctx, parent, out, h))) \<Rightarrow>
                 size_list (\<lambda>c. Suc (size (snd c))) cs,
         \<lambda>x. case x of
               Inl (Inl (E, n, ctx, parent, h)) \<Rightarrow> 0
             | Inl (Inr (E, n, gmax, matches, ctx, parent, out, h)) \<Rightarrow> Suc (nat (gmax - matches))
             | Inr (Inl (E, n, i, ctx, parent, out, h)) \<Rightarrow> Suc (nat (MaxIterations E - i))
             | Inr (Inr (Inl (E, ns, ctx, parent, h, d, fe, fv))) \<Rightarrow> 0
             | Inr (Inr (Inr (E, cs, first, ctx, parent, out, h))) \<Rightarrow> 0]")
     (auto simp: size_prod_simp)


declare groupLoop.simps [simp del] repetitionLoop.simps [simp del]

section \<open>Notions used by the statements\<close>

text \<open>The lexer reached from \<open>l\<close> by \<open>n\<close> calls of \<^verbatim>\<open>next()\<close>.\<close>

fun nextN :: "nat \<Rightarrow> PeekingLexer \<Rightarrow> PeekingLexer" where
  "nextN 0 l = l"
| "nextN (Suc n) l = nextN n (snd (Next l))"

text \<open>The loop counter when a loop is left, the number of times its body was entered
  (the iteration in progress counts when the loop is left from inside the body), and the
  context at that moment.\<close>

fun loopCounter :: "loopExit \<Rightarrow> int" where
  "loopCounter (Returned i out err ctx h) = i"
| "loopCounter (Broke i out ctx h) = i"
| "loopCounter (Exhausted i out ctx h) = i"

fun iterations :: "loopExit \<Rightarrow> int" where
  "iterations (Returned i out err ctx h) = i + 1"
| "iterations (Broke i out ctx h) = i + 1"
| "iterations (Exhausted i out ctx h) = i"

fun exitContext :: "loopExit \<Rightarrow> parseContext" where
  "exitContext (Returned i out err ctx h) = ctx"
| "exitContext (Broke i out ctx h) = ctx"
| "exitContext (Exhausted i out ctx h) = ctx"

text \<open>The items of a sequence that matched: \<open>matchedItems E cells ctx parent out h\<close>
  runs the cells in order, each of which must return a non-nil list and no error, and
  gives the accumulated output, the context and the heap after the last one.\<close>

fun matchedItems ::
  "env \<Rightarrow> (bool \<times> node) list \<Rightarrow> parseContext \<Rightarrow> rvalue \<Rightarrow> rvalue list option \<Rightarrow> heap
     \<Rightarrow> (rvalue list option \<times> parseContext \<times> heap) option" where
  "matchedItems E [] ctx parent out h = Some (out, ctx, h)"
| "matchedItems E (n # rest) ctx parent out h =
     (case Parse E (snd n) ctx parent h of
        Ok (Some vs, None, ctx1, h1) \<Rightarrow> matchedItems E rest ctx1 parent (goAppend out (Some vs)) h1
      | _ \<Rightarrow> None)"


text \<open>Whether an error value is an \<^verbatim>\<open>UnexpectedTokenError\<close>.\<close>

fun isUnexpectedTokenError :: "error \<Rightarrow> bool" where
  "isUnexpectedTokenError (UnexpectedTokenError t n) = True"
| "isUnexpectedTokenError e = False"

text \<open>The alternatives of a disjunction that were tried and left behind: each returned
  nil without error, or an error on which \<open>Stop\<close> did not hold. The result is the heap
  and the loop variables \<^verbatim>\<open>deepestError\<close>, \<^verbatim>\<open>firstError\<close>, \<^verbatim>\<open>firstValues\<close> after them.\<close>

fun skippedAlternatives ::
  "env \<Rightarrow> node list \<Rightarrow> parseContext \<Rightarrow> rvalue \<Rightarrow> heap \<Rightarrow> nat \<Rightarrow> error option
     \<Rightarrow> rvalue list option \<Rightarrow> (heap \<times> nat \<times> error option \<times> rvalue list option) option" where
  "skippedAlternatives E [] ctx parent h deepest firstError firstValues =
     Some (h, deepest, firstError, firstValues)"
| "skippedAlternatives E (a # as) ctx parent h deepest firstError firstValues =
     (case Parse E a (Branch ctx) parent h of
        Ok (value, Some err, branch, h1) \<Rightarrow>
          if Stop E err ctx branch then None
          else if Cursor branch \<ge> deepest then
            skippedAlternatives E as ctx parent h1 (Cursor branch) (Some err) value
          else skippedAlternatives E as ctx parent h1 deepest firstError firstValues
      | Ok (None, None, branch, h1) \<Rightarrow>
          skippedAlternatives E as ctx parent h1 deepest firstError firstValues
      | _ \<Rightarrow> None)"


section \<open>Inputs of the examples\<close>

text \<open>
  The concrete runs below use one environment: the default ceiling, a 64-bit \<^verbatim>\<open>int\<close>,
  the stop policy \<open>stopOnProgress\<close>, and no user methods. Its \<open>EqualFold\<close> folds ASCII
  letters only and its float operations are placeholders: no example has a
  case-insensitive token kind or a float field.
\<close>

definition defaultMaxIterations :: int where
  "defaultMaxIterations = 1000000"

definition asciiEqualFold :: "string \<Rightarrow> string \<Rightarrow> bool" where
  "asciiEqualFold a b \<longleftrightarrow> map lower a = map lower b"

definition exampleEnv :: env where
  "exampleEnv =
     \<lparr>MaxIterations = defaultMaxIterations, IntSize = 64, Stop = stopOnProgress,
      EqualFold = asciiEqualFold,
      ParseFloat = (\<lambda>s bits. (0, Some ErrSyntax)), FloatAddOne = (\<lambda>k x. x),
      CaptureOf = (\<lambda>t. None), UnmarshalTextOf = (\<lambda>t. None),
      ParseOf = (\<lambda>t g l. (g, l, Some NextMatch))\<rparr>"



definition mkToken :: "rune \<Rightarrow> string \<Rightarrow> int \<Rightarrow> Token" where
  "mkToken k v off =
     \<lparr>Type = k, Value = v, Pos = \<lparr>Filename = [], Offset = off, Line = 1, Column = off + 1\<rparr>\<rparr>"

definition newLexer :: "Token list \<Rightarrow> PeekingLexer" where
  "newLexer ts =
     \<lparr>tokens = ts, rawCursor = 0, cursor = 0, elide = (\<lambda>k. False),
      eof = mkToken EOF [] (int (length ts))\<rparr>"

definition newContext :: "Token list \<Rightarrow> parseContext" where
  "newContext ts =
     \<lparr>lexer = newLexer ts, deepestError = None, deepestErrorDepth = 0,
      caseInsensitive = (\<lambda>k. False), deferred = []\<rparr>"

text \<open>The parent handed to a root node; a struct node ignores it.\<close>

definition rootParent :: rvalue where
  "rootParent = Imm (VOther (RType [] [] KOther []))"

text \<open>Scenario 1 of the specification: \<^verbatim>\<open>Struct{ count: Int }\<close> whose field captures
  \<^verbatim>\<open>Repetition(Literal("+"))\<close>, and the token stream \<^verbatim>\<open>+ + +\<close>.\<close>

definition counterType :: rtype where
  "counterType = RType ''main'' ''Counter'' KStruct [intType]"

definition countField :: structLexerField where
  "countField = \<lparr>Name = ''Count'', Index = [0]\<rparr>"

definition counterGrammar :: node where
  "counterGrammar =
     Strct counterType (Capture countField (Repetition (Literal ''+'' (-1) []))) None None None"

definition plusTokens :: "Token list" where
  "plusTokens = [mkToken 43 ''+'' 0, mkToken 43 ''+'' 1, mkToken 43 ''+'' 2]"

text \<open>A struct with a boolean field that captures an optional \<^verbatim>\<open>"x"\<close>, followed by a
  required \<^verbatim>\<open>"y"\<close>.\<close>

definition flagType :: rtype where
  "flagType = RType ''main'' ''Flags'' KStruct [boolType]"

definition flagField :: structLexerField where
  "flagField = \<lparr>Name = ''Flag'', Index = [0]\<rparr>"

definition flagGrammar :: node where
  "flagGrammar =
     Strct flagType
       (Sequence [(True, Capture flagField (Optional (Literal ''x'' (-1) []))),
                  (False, Literal ''y'' (-1) [])])
       None None None"

text \<open>A struct with a string field that captures the sequence \<^verbatim>\<open>"a" "b"\<close>.\<close>

definition wordType :: rtype where
  "wordType = RType ''main'' ''Word'' KStruct [stringType]"

definition textField :: structLexerField where
  "textField = \<lparr>Name = ''Text'', Index = [0]\<rparr>"

definition abSequence :: node where
  "abSequence = Sequence [(True, Literal ''a'' (-1) []), (False, Literal ''b'' (-1) [])]"

definition wordGrammar :: node where
  "wordGrammar = Strct wordType (Capture textField abSequence) None None None"

text \<open>The sequence \<^verbatim>\<open>"a" "b" "c"\<close>.\<close>

definition abcSequence :: node where
  "abcSequence =
     Sequence [(True, Literal ''a'' (-1) []), (False, Literal ''b'' (-1) []),
               (False, Literal ''c'' (-1) [])]"



text \<open>The facts that evaluate a concrete run.\<close>

lemmas eval_defs =
  exampleEnv_def defaultMaxIterations_def newContext_def newLexer_def mkToken_def rootParent_def
  counterType_def countField_def counterGrammar_def plusTokens_def
  flagType_def flagField_def flagGrammar_def wordType_def textField_def abSequence_def
  wordGrammar_def abcSequence_def
  New_def Peek_def Next_def Range_def RawPeek_def RawCursor_def Cursor_def Branch_def Accept_def
  Defer_def MaybeUpdateError_def stopOnProgress_def
  maybeInject_def goAppend_def ValueOf_string_def ValueOf_bool_def
  repetitionLoop.simps groupLoop.simps
  Apply_def setField_def setFieldAt_def setFieldScalar_def assignScalar_def setFieldString_def
  setFieldSlice_def
  FieldByIndex_def loadLoc_def storeLoc_def loadV_def loadF_def
  nearestPos_def decorate_def
  stringType_def intType_def boolType_def tokenType_def tokensType_def positionType_def
  int32Type_def isIntKind_def isUintKind_def isFloatKind_def gkind_def sizeOfKind_def
  kindBits_def ParseInt_def ParseUint_def digitVal_def lower_def underscoreOK_def
  Convert_def Elem_def PtrTo_def EOF_def Token_EOF_def Let_def

section \<open>Optional and repetition: the value list is non-nil unless an error is returned\<close>












section \<open>The peeking lexer\<close>

lemma nextFrom_Some_peek:
  "nextFrom el ts = (Some t, k) \<Longrightarrow> peekFrom el e ts 0 = t"
  by (induction ts arbitrary: k) (auto split: if_splits prod.splits)

lemma nextFrom_None_peek:
  "nextFrom el ts = (None, k) \<Longrightarrow> peekFrom el e ts n = e"
  by (induction ts arbitrary: k n) (auto split: if_splits prod.splits)

lemma nextFrom_None_all_elided:
  "nextFrom el ts = (None, k) \<Longrightarrow> \<forall>t\<in>set ts. el (Type t)"
  by (induction ts arbitrary: k) (auto split: if_splits prod.splits)

lemma nextFrom_None_length:
  "nextFrom el ts = (None, k) \<Longrightarrow> k = length ts"
  by (induction ts arbitrary: k) (auto split: if_splits prod.splits)

lemma Peek_snd [simp]: "snd (Peek l n) = None"
  by (simp add: Peek_def)

text \<open>\<^verbatim>\<open>next()\<close> returns the token that \<^verbatim>\<open>peek(0)\<close> shows.\<close>

lemma Next_returns_Peek: "fst (Next l) = Peek l 0"
proof (cases "nextFrom (elide l) (drop (rawCursor l) (tokens l))")
  case (Pair r k)
  then show ?thesis
    by (cases r) (auto simp: Next_def Peek_def nextFrom_Some_peek nextFrom_None_peek)
qed

text \<open>While a non-elided token is left, \<^verbatim>\<open>next()\<close> consumes exactly one.\<close>

lemma Next_cursor:
  assumes "\<exists>t\<in>set (drop (rawCursor l) (tokens l)). \<not> elide l (Type t)"
  shows "cursor (snd (Next l)) = cursor l + 1"
proof (cases "nextFrom (elide l) (drop (rawCursor l) (tokens l))")
  case (Pair r k)
  show ?thesis
  proof (cases r)
    case None
    with Pair assms show ?thesis by (auto dest: nextFrom_None_all_elided)
  next
    case (Some t)
    with Pair show ?thesis by (simp add: Next_def)
  qed
qed

lemma Peek_not_eof_remaining:
  assumes "fst (Peek l 0) \<noteq> eof l"
  shows "\<exists>t\<in>set (drop (rawCursor l) (tokens l)). \<not> elide l (Type t)"
proof (rule ccontr)
  assume "\<not> ?thesis"
  then have all: "\<forall>t\<in>set (drop (rawCursor l) (tokens l)). elide l (Type t)" by blast
  have "peekFrom el e ts 0 = e" if "\<forall>t\<in>set ts. el (Type t)" for el e ts
    using that by (induction ts) auto
  with all have "fst (Peek l 0) = eof l" by (simp add: Peek_def)
  with assms show False by simp
qed

lemma Next_cursor_mono: "cursor l \<le> cursor (snd (Next l))"
  by (auto simp: Next_def split: prod.splits option.splits)

lemma nextN_cursor_mono: "cursor l \<le> cursor (nextN n l)"
proof (induction n arbitrary: l)
  case 0
  show ?case by simp
next
  case (Suc n)
  have "cursor l \<le> cursor (snd (Next l))" by (rule Next_cursor_mono)
  also have "\<dots> \<le> cursor (nextN n (snd (Next l)))" by (rule Suc.IH)
  finally show ?case by simp
qed

lemma Next_same_cursor_Peek:
  assumes "cursor (snd (Next l)) = cursor l"
  shows "Peek (snd (Next l)) 0 = Peek l 0"
proof (cases "nextFrom (elide l) (drop (rawCursor l) (tokens l))")
  case (Pair r k)
  show ?thesis
  proof (cases r)
    case None
    with Pair have k: "k = length (drop (rawCursor l) (tokens l))"
      by (auto dest: nextFrom_None_length)
    from None Pair have "Peek l 0 = (eof l, None)"
      by (simp add: Peek_def nextFrom_None_peek)
    moreover from None Pair k have "Peek (snd (Next l)) 0 = (eof l, None)"
      by (simp add: Peek_def Next_def)
    ultimately show ?thesis by simp
  next
    case (Some t)
    with Pair assms show ?thesis by (simp add: Next_def)
  qed
qed

text \<open>A lexer that is some calls of \<^verbatim>\<open>next()\<close> ahead and has consumed no token shows
  the same token.\<close>

lemma nextN_same_cursor_Peek:
  "cursor (nextN n l) = cursor l \<Longrightarrow> Peek (nextN n l) 0 = Peek l 0"
proof (induction n arbitrary: l)
  case 0
  show ?case by simp
next
  case (Suc n)
  have a: "cursor l \<le> cursor (snd (Next l))" by (rule Next_cursor_mono)
  have b: "cursor (snd (Next l)) \<le> cursor (nextN n (snd (Next l)))" by (rule nextN_cursor_mono)
  from Suc.prems a b have c: "cursor (snd (Next l)) = cursor l" by simp
  with Suc.prems have "cursor (nextN n (snd (Next l))) = cursor (snd (Next l))" by simp
  then have "Peek (nextN n (snd (Next l))) 0 = Peek (snd (Next l)) 0" by (rule Suc.IH)
  with c show ?case by (simp add: Next_same_cursor_Peek)
qed

text \<open>When only elided tokens are left, \<^verbatim>\<open>peek(0)\<close> shows the end-of-input token and
  \<^verbatim>\<open>next()\<close> consumes no token.\<close>

lemma peekFrom_all_elided: "\<forall>t\<in>set ts. el (Type t) \<Longrightarrow> peekFrom el e ts n = e"
  by (induction ts) auto

lemma nextFrom_all_elided: "\<forall>t\<in>set ts. el (Type t) \<Longrightarrow> fst (nextFrom el ts) = None"
  by (induction ts) (auto split: prod.splits)

lemma Peek_exhausted:
  "\<forall>t\<in>set (drop (rawCursor l) (tokens l)). elide l (Type t) \<Longrightarrow> fst (Peek l 0) = eof l"
  by (simp add: Peek_def peekFrom_all_elided)

lemma Next_cursor_exhausted:
  assumes "\<forall>t\<in>set (drop (rawCursor l) (tokens l)). elide l (Type t)"
  shows "cursor (snd (Next l)) = cursor l"
proof (cases "nextFrom (elide l) (drop (rawCursor l) (tokens l))")
  case (Pair r k)
  from assms have "fst (nextFrom (elide l) (drop (rawCursor l) (tokens l))) = None"
    by (rule nextFrom_all_elided)
  with Pair have "r = None" by simp
  with Pair show ?thesis by (simp add: Next_def)
qed

section \<open>Literal nodes\<close>

lemma literal_match:
  assumes "(if caseInsensitive ctx (Type (fst (Peek (lexer ctx) 0)))
            then EqualFold E (Value (fst (Peek (lexer ctx) 0))) s
            else Value (fst (Peek (lexer ctx) 0)) = s)
           \<and> (t = -1 \<or> t = Type (fst (Peek (lexer ctx) 0)))"
  shows "Parse E (Literal s t tt) ctx parent h =
           Ok (Some [Imm (VString stringType (Value (fst (Peek (lexer ctx) 0))))], None,
               ctx\<lparr>lexer := snd (Next (lexer ctx))\<rparr>, h)"
proof -
  obtain tk where p: "Peek (lexer ctx) 0 = (tk, None)"
    by (cases "Peek (lexer ctx) 0") (simp add: Peek_def)
  obtain lx where n: "Next (lexer ctx) = ((tk, None), lx)"
    using Next_returns_Peek [of "lexer ctx"] p by (cases "Next (lexer ctx)") auto
  from assms p n show ?thesis by (auto simp: Let_def ValueOf_string_def)
qed

lemma literal_no_match:
  assumes "\<not> ((if caseInsensitive ctx (Type (fst (Peek (lexer ctx) 0)))
               then EqualFold E (Value (fst (Peek (lexer ctx) 0))) s
               else Value (fst (Peek (lexer ctx) 0)) = s)
              \<and> (t = -1 \<or> t = Type (fst (Peek (lexer ctx) 0))))"
  shows "Parse E (Literal s t tt) ctx parent h = Ok (None, None, ctx, h)"
proof -
  obtain tk where p: "Peek (lexer ctx) 0 = (tk, None)"
    by (cases "Peek (lexer ctx) 0") (simp add: Peek_def)
  from assms p show ?thesis by (auto simp: Let_def)
qed

text \<open>
  Claim C4, as stated, fails: a literal that matches does not always consume a token.
  On the empty token stream \<^verbatim>\<open>peek(0)\<close> shows the end-of-input token, whose value is the
  empty string; \<^verbatim>\<open>Literal{"", -1}\<close> matches it (\<^verbatim>\<open>literal.Parse\<close> has no EOF test), \<^verbatim>\<open>next()\<close>
  returns the end-of-input token again and the cursor stays: the node returns the
  one-element list of the empty string and the context it was given, at cursor \<open>0\<close> of a
  stream with no token.
\<close>

theorem literal_matches_eof_counterexample:
  "Parse exampleEnv (Literal [] (-1) []) (newContext []) rootParent []
     = Ok (Some [Imm (VString stringType [])], None, newContext [], [])
   \<and> tokens (lexer (newContext [])) = []
   \<and> Cursor (newContext []) = 0"
  by (simp add: eval_defs)

text \<open>
  Claim C4, amended: with \<open>token\<close> the peeked token, \<^verbatim>\<open>Literal{s, t}\<close> matches exactly when
  the value of \<open>token\<close> equals \<open>s\<close> (under \<open>EqualFold\<close> iff the case-insensitive flag of the
  token's kind is set) and \<open>t\<close> is \<open>-1\<close> or the token's kind. On a match it returns the
  one-element list of the string value \<open>Value token\<close> and the context after one \<^verbatim>\<open>next()\<close>:
  when a non-elided token is left in the stream, exactly one token has been consumed;
  when none is left, \<open>token\<close> is the end-of-input token and no token has been consumed.
  Without a match it returns nil and the context is unchanged.
\<close>

theorem literal_matches_and_consumes_one:
  fixes E :: env and ctx :: parseContext and s :: string and t :: rune
  defines "token \<equiv> fst (Peek (lexer ctx) 0)"
  defines "matches \<equiv>
    (if caseInsensitive ctx (Type token) then EqualFold E (Value token) s else Value token = s)
    \<and> (t = -1 \<or> t = Type token)"
  shows "(matches \<longrightarrow>
            Parse E (Literal s t tt) ctx parent h =
              Ok (Some [Imm (VString stringType (Value token))], None,
                  ctx\<lparr>lexer := snd (Next (lexer ctx))\<rparr>, h)
            \<and> ((\<exists>x\<in>set (drop (rawCursor (lexer ctx)) (tokens (lexer ctx))).
                   \<not> elide (lexer ctx) (Type x)) \<longrightarrow>
                 Cursor (ctx\<lparr>lexer := snd (Next (lexer ctx))\<rparr>) = Cursor ctx + 1)
            \<and> ((\<forall>x\<in>set (drop (rawCursor (lexer ctx)) (tokens (lexer ctx))).
                   elide (lexer ctx) (Type x)) \<longrightarrow>
                 token = eof (lexer ctx)
                 \<and> Cursor (ctx\<lparr>lexer := snd (Next (lexer ctx))\<rparr>) = Cursor ctx))
         \<and> (\<not> matches \<longrightarrow> Parse E (Literal s t tt) ctx parent h = Ok (None, None, ctx, h))"
  unfolding token_def matches_def
  using literal_match [of ctx E s t tt parent h] literal_no_match [of ctx E s t tt parent h]
    Next_cursor [of "lexer ctx"] Next_cursor_exhausted [of "lexer ctx"]
    Peek_exhausted [of "lexer ctx"]
  by (auto simp: Cursor_def)

text \<open>The theorem at work: \<^verbatim>\<open>"+"\<close> on \<^verbatim>\<open>+ + +\<close> matches and consumes one token, \<^verbatim>\<open>"-"\<close> does
  not match, and \<^verbatim>\<open>""\<close> on the empty stream matches the end-of-input token and consumes
  none.\<close>

theorem literal_matches_and_consumes_one_witness:
  "Parse exampleEnv (Literal ''+'' (-1) []) (newContext plusTokens) rootParent []
     = Ok (Some [Imm (VString stringType ''+'')], None,
           (newContext plusTokens)\<lparr>lexer := snd (Next (lexer (newContext plusTokens)))\<rparr>, [])
   \<and> Cursor ((newContext plusTokens)\<lparr>lexer := snd (Next (lexer (newContext plusTokens)))\<rparr>)
       = Cursor (newContext plusTokens) + 1
   \<and> Parse exampleEnv (Literal ''-'' (-1) []) (newContext plusTokens) rootParent []
       = Ok (None, None, newContext plusTokens, [])
   \<and> Parse exampleEnv (Literal [] (-1) []) (newContext []) rootParent []
       = Ok (Some [Imm (VString stringType (Value (eof (lexer (newContext [])))))], None,
             (newContext [])\<lparr>lexer := snd (Next (lexer (newContext [])))\<rparr>, [])
   \<and> fst (Peek (lexer (newContext [])) 0) = eof (lexer (newContext []))
   \<and> Cursor ((newContext [])\<lparr>lexer := snd (Next (lexer (newContext [])))\<rparr>)
       = Cursor (newContext [])"
  using literal_matches_and_consumes_one
    [of "newContext plusTokens" exampleEnv "''+''" "-1" "[]" rootParent "[]"]
    literal_matches_and_consumes_one
    [of "newContext plusTokens" exampleEnv "''-''" "-1" "[]" rootParent "[]"]
    literal_matches_and_consumes_one
    [of "newContext []" exampleEnv "[]" "-1" "[]" rootParent "[]"]
  by (simp add: eval_defs)

section \<open>Negation nodes\<close>

lemma negation_eof:
  "Token_EOF (fst (Peek (lexer ctx) 0)) \<Longrightarrow>
   Parse E (Negation body) ctx parent h = Ok (None, None, ctx, h)"
  by (cases "Peek (lexer ctx) 0") (auto simp: Peek_def)

lemma negation_body_succeeds:
  "\<not> Token_EOF (fst (Peek (lexer ctx) 0)) \<Longrightarrow>
   Parse E body (Branch ctx) parent h = Ok (Some vs, None, b, h1) \<Longrightarrow>
   Parse E (Negation body) ctx parent h =
     Ok (None,
         Some (ErrorfUnexpected (Pos (fst (Peek (lexer ctx) 0))) (Value (fst (Peek (lexer ctx) 0)))),
         ctx, h1)"
  by (cases "Peek (lexer ctx) 0") (auto simp: Peek_def)

lemma Errorf_not_UnexpectedTokenError: "\<not> isUnexpectedTokenError (ErrorfUnexpected p v)"
  by simp

lemma negation_otherwise:
  assumes "\<not> Token_EOF (fst (Peek (lexer ctx) 0))"
    and "Parse E body (Branch ctx) parent h = Ok (out, err, b, h1)"
    and "out = None \<or> err \<noteq> None"
  shows "Parse E (Negation body) ctx parent h =
     Ok (Some [Imm (VString stringType (Value (fst (Peek (lexer ctx) 0))))], None,
         ctx\<lparr>lexer := snd (Next (lexer ctx))\<rparr>, h1)"
proof -
  obtain tk where p: "Peek (lexer ctx) 0 = (tk, None)"
    by (cases "Peek (lexer ctx) 0") (simp add: Peek_def)
  obtain lx where n: "Next (lexer ctx) = ((tk, None), lx)"
    using Next_returns_Peek [of "lexer ctx"] p by (cases "Next (lexer ctx)") auto
  from assms p n show ?thesis by (auto simp: Let_def ValueOf_string_def)
qed

lemma negation_consumes_one:
  assumes "\<not> Token_EOF (fst (Peek (lexer ctx) 0))" and "Token_EOF (eof (lexer ctx))"
  shows "Cursor (ctx\<lparr>lexer := snd (Next (lexer ctx))\<rparr>) = Cursor ctx + 1"
proof -
  from assms have "fst (Peek (lexer ctx) 0) \<noteq> eof (lexer ctx)" by auto
  then show ?thesis
    by (simp add: Cursor_def Next_cursor Peek_not_eof_remaining)
qed

text \<open>
  Claim C8, as stated, fails in its second case: the error is not an
  \<^verbatim>\<open>UnexpectedTokenError\<close>. \<^verbatim>\<open>negation.Parse\<close> executes
  \<^verbatim>\<open>return nil, Errorf(notEOF.Pos, "unexpected '%s'", notEOF.Value)\<close>, a positioned error
  made of the peeked token's position and a message with its value; the only
  \<^verbatim>\<open>UnexpectedTokenError\<close> of \<^verbatim>\<open>nodes.go\<close> is built by \<^verbatim>\<open>sequence.Parse\<close>. Here the negation
  of \<^verbatim>\<open>";"\<close> meets the token \<^verbatim>\<open>;\<close>: the body succeeds and the node returns the \<^verbatim>\<open>Errorf\<close>
  error, the context unchanged.
\<close>

theorem negation_error_kind_counterexample:
  "Parse exampleEnv (Negation (Literal '';'' (-1) [])) (newContext [mkToken 1 '';'' 0])
     rootParent []
     = Ok (None, Some (ErrorfUnexpected (Pos (mkToken 1 '';'' 0)) '';''),
           newContext [mkToken 1 '';'' 0], [])
   \<and> \<not> isUnexpectedTokenError (ErrorfUnexpected (Pos (mkToken 1 '';'' 0)) '';'')"
  by (simp add: eval_defs)

text \<open>
  Claim C8, amended: with \<open>token\<close> the peeked token of the main context: if \<open>token\<close> is
  EOF the negation node returns nil without error; if the body, parsed on a branch,
  returns a non-nil list and no error, the node returns the error
  \<^verbatim>\<open>Errorf(token.Pos, "unexpected '%s'", token.Value)\<close> (which is not an
  \<^verbatim>\<open>UnexpectedTokenError\<close>) and the main context is unchanged; in every other case in
  which the body returns, the node returns the one-element list of the string value
  \<open>Value token\<close> and the main context advanced by one \<^verbatim>\<open>next()\<close> (the branch is dropped),
  which consumes exactly one token when the lexer's end-of-input token is an EOF token.
\<close>

theorem negation_Parse_cases:
  fixes ctx :: parseContext
  defines "token \<equiv> fst (Peek (lexer ctx) 0)"
  shows "(Token_EOF token \<longrightarrow> Parse E (Negation body) ctx parent h = Ok (None, None, ctx, h))
       \<and> (\<not> Token_EOF token \<longrightarrow>
            Parse E body (Branch ctx) parent h = Ok (Some vs, None, b, h1) \<longrightarrow>
            Parse E (Negation body) ctx parent h =
              Ok (None, Some (ErrorfUnexpected (Pos token) (Value token)), ctx, h1)
            \<and> \<not> isUnexpectedTokenError (ErrorfUnexpected (Pos token) (Value token)))
       \<and> (\<not> Token_EOF token \<longrightarrow>
            Parse E body (Branch ctx) parent h = Ok (out, err, b, h1) \<longrightarrow>
            (out = None \<or> err \<noteq> None) \<longrightarrow>
            Parse E (Negation body) ctx parent h =
              Ok (Some [Imm (VString stringType (Value token))], None,
                  ctx\<lparr>lexer := snd (Next (lexer ctx))\<rparr>, h1)
            \<and> (Token_EOF (eof (lexer ctx)) \<longrightarrow>
                 Cursor (ctx\<lparr>lexer := snd (Next (lexer ctx))\<rparr>) = Cursor ctx + 1))"
  unfolding token_def
  using negation_eof [of ctx E body parent h]
    negation_body_succeeds [of ctx E body parent h vs b h1]
    negation_otherwise [of ctx E body parent h out err b h1]
    negation_consumes_one [of ctx]
    Errorf_not_UnexpectedTokenError
      [of "Pos (fst (Peek (lexer ctx) 0))" "Value (fst (Peek (lexer ctx) 0))"]
  by blast

theorem negation_Parse_cases_witness:
  "Token_EOF (fst (Peek (lexer (newContext [])) 0))
   \<and> Parse exampleEnv (Negation (Literal '';'' (-1) [])) (newContext []) rootParent []
       = Ok (None, None, newContext [], [])
   \<and> \<not> Token_EOF (fst (Peek (lexer (newContext [mkToken 1 '';'' 0])) 0))
   \<and> Parse exampleEnv (Literal '';'' (-1) []) (Branch (newContext [mkToken 1 '';'' 0]))
        rootParent []
       = Ok (Some [Imm (VString stringType '';'')], None,
             (Branch (newContext [mkToken 1 '';'' 0]))
               \<lparr>lexer := (newLexer [mkToken 1 '';'' 0])\<lparr>rawCursor := 1, cursor := 1\<rparr>\<rparr>, [])
   \<and> Parse exampleEnv (Negation (Literal '';'' (-1) [])) (newContext [mkToken 1 '';'' 0]) rootParent []
       = Ok (None, Some (ErrorfUnexpected (Pos (mkToken 1 '';'' 0)) '';''),
             newContext [mkToken 1 '';'' 0], [])
   \<and> \<not> Token_EOF (fst (Peek (lexer (newContext [mkToken 1 ''a'' 0])) 0))
   \<and> Token_EOF (eof (lexer (newContext [mkToken 1 ''a'' 0])))
   \<and> Parse exampleEnv (Literal '';'' (-1) []) (Branch (newContext [mkToken 1 ''a'' 0]))
        rootParent []
       = Ok (None, None, Branch (newContext [mkToken 1 ''a'' 0]), [])
   \<and> Parse exampleEnv (Negation (Literal '';'' (-1) [])) (newContext [mkToken 1 ''a'' 0]) rootParent []
       = Ok (Some [Imm (VString stringType ''a'')], None,
             (newContext [mkToken 1 ''a'' 0])
               \<lparr>lexer := (newLexer [mkToken 1 ''a'' 0])\<lparr>rawCursor := 1, cursor := 1\<rparr>\<rparr>, [])
   \<and> Cursor ((newContext [mkToken 1 ''a'' 0])
               \<lparr>lexer := snd (Next (lexer (newContext [mkToken 1 ''a'' 0])))\<rparr>)
       = Cursor (newContext [mkToken 1 ''a'' 0]) + 1"
  using negation_Parse_cases
      [of "newContext []" exampleEnv "Literal '';'' (-1) []" rootParent "[]"]
    negation_Parse_cases
      [of "newContext [mkToken 1 '';'' 0]" exampleEnv "Literal '';'' (-1) []" rootParent "[]"
          "[Imm (VString stringType '';'')]"
          "(Branch (newContext [mkToken 1 '';'' 0]))
             \<lparr>lexer := (newLexer [mkToken 1 '';'' 0])\<lparr>rawCursor := 1, cursor := 1\<rparr>\<rparr>" "[]"]
    negation_Parse_cases
      [of "newContext [mkToken 1 ''a'' 0]" exampleEnv "Literal '';'' (-1) []" rootParent "[]"
          _ "Branch (newContext [mkToken 1 ''a'' 0])" "[]" None None]
  by (simp add: eval_defs)

section \<open>Capture nodes\<close>

lemma capture_defers:
  "Parse E cnode ctx parent h = Ok (Some vs, err, ctx1, h1) \<Longrightarrow>
   Parse E (Capture field cnode) ctx parent h =
     Ok (Some [parent], err,
         Defer ctx1 (Range (lexer ctx1) (RawCursor ctx) (RawCursor ctx1)) parent field vs, h1)"
  by (auto simp: Let_def)

lemma partial_capture_applied:
  "Parse exampleEnv wordGrammar (newContext [mkToken 1 ''a'' 0, mkToken 1 ''c'' 1]) rootParent [] =
     Ok (Some [Cell 0],
         Some (UnexpectedTokenError (mkToken 1 ''c'' 1) (Sequence [(False, Literal ''b'' (-1) [])])),
         (newContext [mkToken 1 ''a'' 0, mkToken 1 ''c'' 1])
           \<lparr>lexer := (newLexer [mkToken 1 ''a'' 0, mkToken 1 ''c'' 1])\<lparr>rawCursor := 1, cursor := 1\<rparr>,
            deepestError :=
              Some (UnexpectedTokenError (mkToken 1 ''c'' 1) (Sequence [(False, Literal ''b'' (-1) [])])),
            deepestErrorDepth := 1\<rparr>,
         [VStruct wordType [VString stringType ''a'']])"
  by (simp add: eval_defs)

text \<open>
  Claim C9: whenever the child of a capture node returns a non-nil list \<open>vs\<close>, with or
  without an error \<open>err\<close>, the capture node enqueues the deferred capture
  \<open>(range(start, raw_cursor), parent, field, vs)\<close> and returns the parent value together
  with \<open>err\<close>. A later \<^verbatim>\<open>apply()\<close> then writes values of a failed sub-parse into the
  partial AST: for the struct whose \<open>Text\<close> field captures \<^verbatim>\<open>"a" "b"\<close> and the input
  \<^verbatim>\<open>a c\<close>, the struct node returns the error of the sequence and a struct whose \<open>Text\<close>
  is \<^verbatim>\<open>"a"\<close>.
\<close>

theorem capture_defers_also_on_error:
  "(Parse E cnode ctx parent h = Ok (Some vs, err, ctx1, h1) \<longrightarrow>
      Parse E (Capture field cnode) ctx parent h =
        Ok (Some [parent], err,
            Defer ctx1 (Range (lexer ctx1) (RawCursor ctx) (RawCursor ctx1)) parent field vs, h1))
   \<and> Parse exampleEnv wordGrammar (newContext [mkToken 1 ''a'' 0, mkToken 1 ''c'' 1]) rootParent [] =
       Ok (Some [Cell 0],
           Some (UnexpectedTokenError (mkToken 1 ''c'' 1) (Sequence [(False, Literal ''b'' (-1) [])])),
           (newContext [mkToken 1 ''a'' 0, mkToken 1 ''c'' 1])
             \<lparr>lexer := (newLexer [mkToken 1 ''a'' 0, mkToken 1 ''c'' 1])\<lparr>rawCursor := 1, cursor := 1\<rparr>,
              deepestError :=
                Some (UnexpectedTokenError (mkToken 1 ''c'' 1) (Sequence [(False, Literal ''b'' (-1) [])])),
              deepestErrorDepth := 1\<rparr>,
           [VStruct wordType [VString stringType ''a'']])"
  using capture_defers [of E cnode ctx parent h vs err ctx1 h1 field] partial_capture_applied
  by blast

theorem capture_defers_also_on_error_witness:
  "Parse exampleEnv abSequence (newContext [mkToken 1 ''a'' 0, mkToken 1 ''c'' 1]) (Cell 0)
       [VStruct wordType [VString stringType []]]
     = Ok (Some [ValueOf_string ''a''],
           Some (UnexpectedTokenError (mkToken 1 ''c'' 1) (Sequence [(False, Literal ''b'' (-1) [])])),
           (newContext [mkToken 1 ''a'' 0, mkToken 1 ''c'' 1])
             \<lparr>lexer := (newLexer [mkToken 1 ''a'' 0, mkToken 1 ''c'' 1])\<lparr>rawCursor := 1, cursor := 1\<rparr>\<rparr>,
           [VStruct wordType [VString stringType []]])
   \<and> Parse exampleEnv (Capture textField abSequence)
         (newContext [mkToken 1 ''a'' 0, mkToken 1 ''c'' 1]) (Cell 0)
         [VStruct wordType [VString stringType []]]
     = Ok (Some [Cell 0],
           Some (UnexpectedTokenError (mkToken 1 ''c'' 1) (Sequence [(False, Literal ''b'' (-1) [])])),
           (newContext [mkToken 1 ''a'' 0, mkToken 1 ''c'' 1])
             \<lparr>lexer := (newLexer [mkToken 1 ''a'' 0, mkToken 1 ''c'' 1])\<lparr>rawCursor := 1, cursor := 1\<rparr>,
              deferred := [\<lparr>cfTokens = [mkToken 1 ''a'' 0], cfStrct = Cell 0, cfField = textField,
                             cfFieldValue = [ValueOf_string ''a'']\<rparr>]\<rparr>,
           [VStruct wordType [VString stringType []]])"
  using capture_defers_also_on_error
    [of exampleEnv abSequence "newContext [mkToken 1 ''a'' 0, mkToken 1 ''c'' 1]" "Cell 0"
        "[VStruct wordType [VString stringType []]]" "[ValueOf_string ''a'']"
        "Some (UnexpectedTokenError (mkToken 1 ''c'' 1) (Sequence [(False, Literal ''b'' (-1) [])]))"
        "(newContext [mkToken 1 ''a'' 0, mkToken 1 ''c'' 1])
           \<lparr>lexer := (newLexer [mkToken 1 ''a'' 0, mkToken 1 ''c'' 1])\<lparr>rawCursor := 1, cursor := 1\<rparr>\<rparr>"
        "[VStruct wordType [VString stringType []]]" textField]
  by (simp add: eval_defs)

section \<open>Sequence nodes\<close>

lemma sequence_first_nil:
  "Parse E (snd n) ctx parent h = Ok (None, None, ctx1, h1) \<Longrightarrow>
   Parse E (Sequence (n # rest)) ctx parent h = Ok (None, None, ctx1, h1)"
  by simp

lemma sequence_later_nil:
  "Parse E (snd n) ctx parent h = Ok (None, None, ctx1, h1) \<Longrightarrow>
   sequenceLoop E (n # rest) False ctx parent out h =
     Ok (out, Some (UnexpectedTokenError (fst (Peek (lexer ctx1) 0)) (Sequence (n # rest))), ctx1, h1)"
  by (cases "Peek (lexer ctx1) 0") (auto simp: Peek_def goAppend_def)

lemma sequenceLoop_matchedItems:
  "matchedItems E pre ctx parent out h = Some (out1, ctx1, h1) \<Longrightarrow> pre \<noteq> [] \<Longrightarrow>
   sequenceLoop E (pre @ cells) first ctx parent out h = sequenceLoop E cells False ctx1 parent out1 h1"
proof (induction pre arbitrary: ctx out h first)
  case Nil
  then show ?case by simp
next
  case (Cons n pre)
  from Cons.prems(1) obtain vs ctx2 h2 where
    p: "Parse E (snd n) ctx parent h = Ok (Some vs, None, ctx2, h2)" and
    m: "matchedItems E pre ctx2 parent (goAppend out (Some vs)) h2 = Some (out1, ctx1, h1)"
    by (auto split: res.splits option.splits)
  show ?case
  proof (cases "pre = []")
    case True
    with p m show ?thesis by simp
  next
    case False
    with p Cons.IH [OF m False] show ?thesis by simp
  qed
qed

lemma sequence_later_item_nil:
  assumes "pre \<noteq> []"
    and "matchedItems E pre ctx parent None h = Some (out, ctx1, h1)"
    and "Parse E (snd n) ctx1 parent h1 = Ok (None, None, ctx2, h2)"
  shows "Parse E (Sequence (pre @ n # rest)) ctx parent h =
           Ok (out, Some (UnexpectedTokenError (fst (Peek (lexer ctx2) 0)) (Sequence (n # rest))),
               ctx2, h2)"
proof -
  have "Parse E (Sequence (pre @ n # rest)) ctx parent h =
          sequenceLoop E (pre @ n # rest) True ctx parent None h"
    by simp
  also have "\<dots> = sequenceLoop E (n # rest) False ctx1 parent out h1"
    using assms(2,1) by (rule sequenceLoop_matchedItems)
  also have "\<dots> = Ok (out, Some (UnexpectedTokenError (fst (Peek (lexer ctx2) 0))
                               (Sequence (n # rest))), ctx2, h2)"
    using assms(3) by (rule sequence_later_nil)
  finally show ?thesis .
qed

text \<open>
  Claim C5, as stated, fails in its "expected" part. \<^verbatim>\<open>sequence.Parse\<close> builds
  \<^verbatim>\<open>UnexpectedTokenError{Unexpected: token, Expected: n.String()}\<close>, where \<open>n\<close> is the
  cell of the linked list reached by the loop: a \<^verbatim>\<open>*sequence\<close>, whose \<^verbatim>\<open>String()\<close>
  describes the item together with all items after it, not the item \<^verbatim>\<open>n.node\<close> alone.
  For \<^verbatim>\<open>"a" "b" "c"\<close> on the input \<^verbatim>\<open>a x\<close> the error names the sequence \<^verbatim>\<open>"b" "c"\<close>.
\<close>

theorem sequence_expected_counterexample:
  "Parse exampleEnv abcSequence (newContext [mkToken 1 ''a'' 0, mkToken 1 ''x'' 1]) rootParent [] =
     Ok (Some [ValueOf_string ''a''],
         Some (UnexpectedTokenError (mkToken 1 ''x'' 1)
                 (Sequence [(False, Literal ''b'' (-1) []), (False, Literal ''c'' (-1) [])])),
         (newContext [mkToken 1 ''a'' 0, mkToken 1 ''x'' 1])
           \<lparr>lexer := (newLexer [mkToken 1 ''a'' 0, mkToken 1 ''x'' 1])\<lparr>rawCursor := 1, cursor := 1\<rparr>\<rparr>,
         [])
   \<and> Sequence [(False, Literal ''b'' (-1) []), (False, Literal ''c'' (-1) [])] \<noteq> Literal ''b'' (-1) []"
  by (simp add: eval_defs)

text \<open>
  Claim C5, amended: if the first item of a sequence returns nil without error, the
  sequence returns nil; if the items before a later item all matched and that item
  returns nil without error, the sequence returns the accumulated values of the matched
  items together with an \<^verbatim>\<open>UnexpectedTokenError\<close> whose \<open>Unexpected\<close> is the current
  peeked token and whose \<open>Expected\<close> is the description of the rest of the sequence that
  starts at that item.
\<close>

theorem sequence_nil_items:
  "(Parse E (snd n) ctx parent h = Ok (None, None, ctx1, h1) \<longrightarrow>
      Parse E (Sequence (n # rest)) ctx parent h = Ok (None, None, ctx1, h1))
   \<and> (pre \<noteq> [] \<and> matchedItems E pre ctx parent None h = Some (out, ctx1, h1)
        \<and> Parse E (snd n) ctx1 parent h1 = Ok (None, None, ctx2, h2) \<longrightarrow>
      Parse E (Sequence (pre @ n # rest)) ctx parent h =
        Ok (out, Some (UnexpectedTokenError (fst (Peek (lexer ctx2) 0)) (Sequence (n # rest))),
            ctx2, h2))"
  using sequence_first_nil [of E n ctx parent h ctx1 h1 rest]
    sequence_later_item_nil [of pre E ctx parent h out ctx1 h1 n ctx2 h2 rest]
  by blast

theorem sequence_nil_items_witness:
  "Parse exampleEnv (Literal ''a'' (-1) []) (newContext [mkToken 1 ''x'' 0]) rootParent []
      = Ok (None, None, newContext [mkToken 1 ''x'' 0], [])
   \<and> Parse exampleEnv abcSequence (newContext [mkToken 1 ''x'' 0]) rootParent []
      = Ok (None, None, newContext [mkToken 1 ''x'' 0], [])
   \<and> matchedItems exampleEnv [(True, Literal ''a'' (-1) [])]
        (newContext [mkToken 1 ''a'' 0, mkToken 1 ''x'' 1]) rootParent None []
      = Some (Some [ValueOf_string ''a''],
              (newContext [mkToken 1 ''a'' 0, mkToken 1 ''x'' 1])
                \<lparr>lexer := (newLexer [mkToken 1 ''a'' 0, mkToken 1 ''x'' 1])\<lparr>rawCursor := 1, cursor := 1\<rparr>\<rparr>,
              [])
   \<and> Parse exampleEnv abcSequence (newContext [mkToken 1 ''a'' 0, mkToken 1 ''x'' 1]) rootParent []
      = Ok (Some [ValueOf_string ''a''],
            Some (UnexpectedTokenError (mkToken 1 ''x'' 1)
                   (Sequence [(False, Literal ''b'' (-1) []), (False, Literal ''c'' (-1) [])])),
            (newContext [mkToken 1 ''a'' 0, mkToken 1 ''x'' 1])
              \<lparr>lexer := (newLexer [mkToken 1 ''a'' 0, mkToken 1 ''x'' 1])\<lparr>rawCursor := 1, cursor := 1\<rparr>\<rparr>,
            [])"
  using sequence_nil_items
      [of exampleEnv "(True, Literal ''a'' (-1) [])" "newContext [mkToken 1 ''x'' 0]" rootParent "[]"
          "newContext [mkToken 1 ''x'' 0]" "[]"
          "[(False, Literal ''b'' (-1) []), (False, Literal ''c'' (-1) [])]"]
    sequence_nil_items
      [of exampleEnv "(False, Literal ''b'' (-1) [])"
          "newContext [mkToken 1 ''a'' 0, mkToken 1 ''x'' 1]" rootParent "[]"
          "(newContext [mkToken 1 ''a'' 0, mkToken 1 ''x'' 1])
             \<lparr>lexer := (newLexer [mkToken 1 ''a'' 0, mkToken 1 ''x'' 1])\<lparr>rawCursor := 1, cursor := 1\<rparr>\<rparr>"
          "[]" "[(False, Literal ''c'' (-1) [])]" "[(True, Literal ''a'' (-1) [])]"
          "Some [ValueOf_string ''a'']"
          "(newContext [mkToken 1 ''a'' 0, mkToken 1 ''x'' 1])
             \<lparr>lexer := (newLexer [mkToken 1 ''a'' 0, mkToken 1 ''x'' 1])\<lparr>rawCursor := 1, cursor := 1\<rparr>\<rparr>"
          "[]"]
  by (simp add: eval_defs)

section \<open>Disjunction nodes\<close>

lemma disjunctionLoop_no_progress:
  assumes "Parse E a (Branch ctx) parent h = Ok (Some vs, None, branch, h1)"
    and "lexer branch = nextN k (lexer ctx)"
    and "Cursor branch = Cursor ctx"
  shows "disjunctionLoop E (a # as) ctx parent h deepest firstError firstValues =
     Panic (PanicError (BranchDidNotProgress (Pos (fst (Peek (lexer ctx) 0))) a
        (Pos (fst (Peek (lexer ctx) 0))) (Value (fst (Peek (lexer ctx) 0)))))"
proof -
  from assms(2,3) have "Peek (lexer branch) 0 = Peek (lexer ctx) 0"
    using nextN_same_cursor_Peek [of k "lexer ctx"] by (simp add: Cursor_def)
  with assms(1) show ?thesis by (simp add: Let_def)
qed

lemma disjunctionLoop_skipped:
  "skippedAlternatives E pre ctx parent h deepest firstError firstValues = Some (h1, d1, fe1, fv1) \<Longrightarrow>
   disjunctionLoop E (pre @ rest) ctx parent h deepest firstError firstValues =
     disjunctionLoop E rest ctx parent h1 d1 fe1 fv1"
proof (induction pre arbitrary: h deepest firstError firstValues)
  case Nil
  then show ?case by simp
next
  case (Cons a pre)
  show ?case
  proof (cases "Parse E a (Branch ctx) parent h")
    case (Panic p)
    with Cons.prems show ?thesis by simp
  next
    case (Ok r)
    obtain v err branch h2 where r: "r = (v, err, branch, h2)" by (cases r) auto
    show ?thesis
    proof (cases err)
      case None
      with Ok r Cons.prems Cons.IH show ?thesis
        by (cases v) (auto split: if_splits)
    next
      case (Some e)
      with Ok r Cons.prems Cons.IH show ?thesis
        by (cases v) (auto split: if_splits)
    qed
  qed
qed

text \<open>
  Claim C6: in a disjunction, let the alternatives \<open>pre\<close> before the alternative \<open>a\<close>
  have been tried and left behind. If \<open>a\<close>, parsed on a branch, returns a non-nil list
  and no error, and the branch has consumed no token (its lexer is some calls of
  \<^verbatim>\<open>next()\<close> ahead of the parent's, with the same cursor), then \<^verbatim>\<open>disjunction.Parse\<close>
  panics with the error \<^verbatim>\<open>"branch %s was accepted but did not progress the lexer"\<close> at
  the position of the peeked token; the branch is not accepted.
\<close>

theorem disjunction_zero_progress_panics:
  assumes "skippedAlternatives E pre ctx parent h 0 None None = Some (h0, d0, fe0, fv0)"
    and "Parse E a (Branch ctx) parent h0 = Ok (Some vs, None, branch, h1)"
    and "lexer branch = nextN k (lexer ctx)"
    and "Cursor branch = Cursor ctx"
  shows "Parse E (Disjunction (pre @ a # as)) ctx parent h =
     Panic (PanicError (BranchDidNotProgress (Pos (fst (Peek (lexer ctx) 0))) a
        (Pos (fst (Peek (lexer ctx) 0))) (Value (fst (Peek (lexer ctx) 0)))))"
proof -
  have "Parse E (Disjunction (pre @ a # as)) ctx parent h =
          disjunctionLoop E (pre @ a # as) ctx parent h 0 None None"
    by simp
  also have "\<dots> = disjunctionLoop E (a # as) ctx parent h0 d0 fe0 fv0"
    using assms(1) by (rule disjunctionLoop_skipped)
  also have "\<dots> = Panic (PanicError (BranchDidNotProgress (Pos (fst (Peek (lexer ctx) 0))) a
        (Pos (fst (Peek (lexer ctx) 0))) (Value (fst (Peek (lexer ctx) 0)))))"
    using assms(2-4) by (rule disjunctionLoop_no_progress)
  finally show ?thesis .
qed

theorem disjunction_zero_progress_panics_witness:
  "skippedAlternatives exampleEnv [Literal ''x'' (-1) []] (newContext [mkToken 1 ''y'' 0])
       rootParent [] 0 None None = Some ([], 0, None, None)
   \<and> Parse exampleEnv (Optional (Literal ''x'' (-1) [])) (Branch (newContext [mkToken 1 ''y'' 0]))
        rootParent [] = Ok (Some [], None, Branch (newContext [mkToken 1 ''y'' 0]), [])
   \<and> lexer (Branch (newContext [mkToken 1 ''y'' 0])) = nextN 0 (lexer (newContext [mkToken 1 ''y'' 0]))
   \<and> Cursor (Branch (newContext [mkToken 1 ''y'' 0])) = Cursor (newContext [mkToken 1 ''y'' 0])
   \<and> Parse exampleEnv
         (Disjunction ([Literal ''x'' (-1) []] @ Optional (Literal ''x'' (-1) []) # [Literal ''y'' (-1) []]))
         (newContext [mkToken 1 ''y'' 0]) rootParent []
       = Panic (PanicError (BranchDidNotProgress (Pos (mkToken 1 ''y'' 0))
                  (Optional (Literal ''x'' (-1) [])) (Pos (mkToken 1 ''y'' 0)) ''y''))"
proof -
  have s: "skippedAlternatives exampleEnv [Literal ''x'' (-1) []] (newContext [mkToken 1 ''y'' 0])
       rootParent [] 0 None None = Some ([], 0, None, None)"
    by (simp add: eval_defs)
  have p: "Parse exampleEnv (Optional (Literal ''x'' (-1) [])) (Branch (newContext [mkToken 1 ''y'' 0]))
        rootParent [] = Ok (Some [], None, Branch (newContext [mkToken 1 ''y'' 0]), [])"
    by (simp add: eval_defs)
  have l: "lexer (Branch (newContext [mkToken 1 ''y'' 0])) = nextN 0 (lexer (newContext [mkToken 1 ''y'' 0]))"
    by (simp add: Branch_def)
  have c: "Cursor (Branch (newContext [mkToken 1 ''y'' 0])) = Cursor (newContext [mkToken 1 ''y'' 0])"
    by (simp add: Branch_def Cursor_def)
  show ?thesis
    using s p l c disjunction_zero_progress_panics [OF s p l c, of "[Literal ''y'' (-1) []]"]
    by (simp add: eval_defs)
qed

section \<open>The iteration ceiling\<close>

lemma repetitionLoop_bound:
  "repetitionLoop E body i ctx parent out h = Ok l \<Longrightarrow> i \<le> MaxIterations E \<Longrightarrow>
   i \<le> loopCounter l \<and> iterations l \<le> MaxIterations E
   \<and> (MaxIterations E \<le> loopCounter l \<longrightarrow>
        (\<exists>out' ctx' h'. l = Exhausted (MaxIterations E) out' ctx' h'))"
proof (induction "nat (MaxIterations E - i)" arbitrary: i ctx out h rule: less_induct)
  case less
  show ?case
  proof (cases "i < MaxIterations E")
    case False
    with less.prems show ?thesis
      by (auto simp: repetitionLoop.simps [of E body i])
  next
    case True
    show ?thesis
    proof (cases "Parse E body (Branch ctx) parent h")
      case (Panic p)
      with True less.prems show ?thesis by (simp add: repetitionLoop.simps [of E body i])
    next
      case (Ok r)
      obtain v err branch h1 where r: "r = (v, err, branch, h1)" by (cases r) auto
      show ?thesis
      proof (cases "err = None \<and> v \<noteq> None")
        case False
        with True Ok r less.prems show ?thesis
          by (auto simp: repetitionLoop.simps [of E body i] Let_def split: option.splits if_splits)
      next
        case c: True
        with True Ok r less.prems(1)
        have rec: "repetitionLoop E body (i + 1) (Accept ctx branch) parent (goAppend out v) h1 = Ok l"
          by (auto simp: repetitionLoop.simps [of E body i] Let_def)
        from True have "nat (MaxIterations E - (i + 1)) < nat (MaxIterations E - i)" by simp
        from less.hyps [OF this rec] True show ?thesis by auto
      qed
    qed
  qed
qed

lemma groupLoop_bound:
  "groupLoop E body gmax i ctx parent out h = Ok l \<Longrightarrow> i \<le> gmax \<Longrightarrow>
   i \<le> loopCounter l \<and> iterations l \<le> gmax
   \<and> (gmax \<le> loopCounter l \<longrightarrow> (\<exists>out' ctx' h'. l = Exhausted gmax out' ctx' h'))"
proof (induction "nat (gmax - i)" arbitrary: i ctx out h rule: less_induct)
  case less
  show ?case
  proof (cases "i < gmax")
    case False
    with less.prems show ?thesis
      by (auto simp: groupLoop.simps [of E body gmax i])
  next
    case True
    show ?thesis
    proof (cases "Parse E body (Branch ctx) parent h")
      case (Panic p)
      with True less.prems show ?thesis by (simp add: groupLoop.simps [of E body gmax i])
    next
      case (Ok r)
      obtain v err branch h1 where r: "r = (v, err, branch, h1)" by (cases r) auto
      show ?thesis
      proof (cases "err = None \<and> v \<noteq> None")
        case False
        with True Ok r less.prems show ?thesis
          by (auto simp: groupLoop.simps [of E body gmax i] Let_def split: option.splits if_splits)
      next
        case c: True
        with True Ok r less.prems(1)
        have rec: "groupLoop E body gmax (i + 1) (Accept ctx branch) parent (goAppend out v) h1 = Ok l"
          by (auto simp: groupLoop.simps [of E body gmax i] Let_def)
        from True have "nat (gmax - (i + 1)) < nat (gmax - i)" by simp
        from less.hyps [OF this rec] True show ?thesis by auto
      qed
    qed
  qed
qed

lemma repetition_ceiling:
  assumes "0 \<le> MaxIterations E"
    and "repetitionLoop E body 0 ctx parent None h = Ok l"
  shows "iterations l \<le> MaxIterations E"
    and "MaxIterations E \<le> loopCounter l \<Longrightarrow>
         Parse E (Repetition body) ctx parent h =
           Panic (PanicError (TooManyIterations (Pos (fst (Peek (lexer (exitContext l)) 0)))
                    (Repetition body) (MaxIterations E)))"
proof -
  from repetitionLoop_bound [OF assms(2,1)] show "iterations l \<le> MaxIterations E" by simp
  assume "MaxIterations E \<le> loopCounter l"
  with repetitionLoop_bound [OF assms(2,1)] obtain out' ctx' h'
    where "l = Exhausted (MaxIterations E) out' ctx' h'" by blast
  with assms(2) show "Parse E (Repetition body) ctx parent h =
           Panic (PanicError (TooManyIterations (Pos (fst (Peek (lexer (exitContext l)) 0)))
                    (Repetition body) (MaxIterations E)))"
    by simp
qed

lemma group_ceiling:
  assumes "0 \<le> MaxIterations E"
    and "mode = groupMatchZeroOrMore \<or> mode = groupMatchOneOrMore"
    and "groupLoop E body (MaxIterations E) 0 ctx parent None h = Ok l"
  shows "iterations l \<le> MaxIterations E"
    and "MaxIterations E \<le> loopCounter l \<Longrightarrow>
         Parse E (Group body mode) ctx parent h =
           Panic (PanicError (TooManyIterations (Pos (fst (Peek (lexer (exitContext l)) 0)))
                    (Group body mode) (MaxIterations E)))"
proof -
  from groupLoop_bound [OF assms(3,1)] show "iterations l \<le> MaxIterations E" by simp
  assume "MaxIterations E \<le> loopCounter l"
  with groupLoop_bound [OF assms(3,1)] obtain out' ctx' h'
    where "l = Exhausted (MaxIterations E) out' ctx' h'" by blast
  with assms(2,3) show "Parse E (Group body mode) ctx parent h =
           Panic (PanicError (TooManyIterations (Pos (fst (Peek (lexer (exitContext l)) 0)))
                    (Group body mode) (MaxIterations E)))"
    by (auto simp: Let_def)
qed

text \<open>
  Claim C7: let the ceiling \<open>MaxIterations\<close> be non-negative (it is \<open>1000000\<close> by default).
  The loop of \<^verbatim>\<open>repetition.Parse\<close>, and the loop of \<^verbatim>\<open>group.Parse\<close> in the modes
  zero-or-more and one-or-more, enter their body at most \<open>MaxIterations\<close> times; and if
  the loop counter reaches \<open>MaxIterations\<close>, the node panics with the error
  \<^verbatim>\<open>"too many iterations of %s (> %d)"\<close> at the position of the current token.
\<close>

theorem iteration_ceiling:
  assumes "0 \<le> MaxIterations E"
  shows "(repetitionLoop E body 0 ctx parent None h = Ok l \<longrightarrow>
            iterations l \<le> MaxIterations E
            \<and> (MaxIterations E \<le> loopCounter l \<longrightarrow>
                 Parse E (Repetition body) ctx parent h =
                   Panic (PanicError (TooManyIterations (Pos (fst (Peek (lexer (exitContext l)) 0)))
                            (Repetition body) (MaxIterations E)))))
       \<and> ((mode = groupMatchZeroOrMore \<or> mode = groupMatchOneOrMore) \<longrightarrow>
            groupLoop E body (MaxIterations E) 0 ctx parent None h = Ok g \<longrightarrow>
            iterations g \<le> MaxIterations E
            \<and> (MaxIterations E \<le> loopCounter g \<longrightarrow>
                 Parse E (Group body mode) ctx parent h =
                   Panic (PanicError (TooManyIterations (Pos (fst (Peek (lexer (exitContext g)) 0)))
                            (Group body mode) (MaxIterations E)))))"
  using repetition_ceiling [OF assms, of body ctx parent h l]
    group_ceiling [OF assms, of mode body ctx parent h g]
  by blast

theorem iteration_ceiling_witness:
  "0 \<le> MaxIterations (exampleEnv\<lparr>MaxIterations := 2\<rparr>)
   \<and> repetitionLoop (exampleEnv\<lparr>MaxIterations := 2\<rparr>) (Literal ''+'' (-1) []) 0
        (newContext plusTokens) rootParent None []
      = Ok (Exhausted 2 (Some [ValueOf_string ''+'', ValueOf_string ''+''])
              ((newContext plusTokens)\<lparr>lexer := (newLexer plusTokens)\<lparr>rawCursor := 2, cursor := 2\<rparr>\<rparr>) [])
   \<and> Parse (exampleEnv\<lparr>MaxIterations := 2\<rparr>) (Repetition (Literal ''+'' (-1) []))
        (newContext plusTokens) rootParent []
      = Panic (PanicError (TooManyIterations (Pos (mkToken 43 ''+'' 2))
                 (Repetition (Literal ''+'' (-1) [])) 2))
   \<and> groupLoop (exampleEnv\<lparr>MaxIterations := 2\<rparr>) (Literal ''+'' (-1) []) 2 0
        (newContext plusTokens) rootParent None []
      = Ok (Exhausted 2 (Some [ValueOf_string ''+'', ValueOf_string ''+''])
              ((newContext plusTokens)\<lparr>lexer := (newLexer plusTokens)\<lparr>rawCursor := 2, cursor := 2\<rparr>\<rparr>) [])
   \<and> Parse (exampleEnv\<lparr>MaxIterations := 2\<rparr>) (Group (Literal ''+'' (-1) []) groupMatchZeroOrMore)
        (newContext plusTokens) rootParent []
      = Panic (PanicError (TooManyIterations (Pos (mkToken 43 ''+'' 2))
                 (Group (Literal ''+'' (-1) []) groupMatchZeroOrMore) 2))"
proof -
  have m: "0 \<le> MaxIterations (exampleEnv\<lparr>MaxIterations := 2\<rparr>)" by simp
  show ?thesis
    using m iteration_ceiling [OF m, of "Literal ''+'' (-1) []" "newContext plusTokens" rootParent "[]"
        "Exhausted 2 (Some [ValueOf_string ''+'', ValueOf_string ''+''])
              ((newContext plusTokens)\<lparr>lexer := (newLexer plusTokens)\<lparr>rawCursor := 2, cursor := 2\<rparr>\<rparr>) []"
        groupMatchZeroOrMore
        "Exhausted 2 (Some [ValueOf_string ''+'', ValueOf_string ''+''])
              ((newContext plusTokens)\<lparr>lexer := (newLexer plusTokens)\<lparr>rawCursor := 2, cursor := 2\<rparr>\<rparr>) []"]
    by (simp add: eval_defs)
qed

section \<open>Boolean destination fields\<close>

lemma FieldByIndex_loadV:
  "FieldByIndex h strct idx = Ok f \<Longrightarrow> \<exists>sg. loadV h strct = Ok sg"
  by (auto simp: FieldByIndex_def loadV_def loadLoc_def
      split: rvalue.splits option.splits gval.splits if_splits)

lemma bool_not_token:
  "tyKind bt = KBool \<Longrightarrow> bt \<noteq> tokenType \<and> bt \<noteq> tokensType"
  by (auto simp: tokenType_def tokensType_def)

lemma setField_bool_copy:
  assumes f: "FieldByIndex h strct (Index field) = Ok f"
    and lf: "loadLoc h f = Some (VBool bt b0)"
    and kb: "tyKind bt = KBool"
    and nc: "CaptureOf E bt = None" and nu: "UnmarshalTextOf E bt = None"
    and lv: "loadV h v = Ok (VBool t b)" and kt: "tyKind t = KBool"
  shows "setField E toks strct field [v] h = Ok (storeLoc h f (VBool bt b), None)"
proof -
  from f obtain sg where sg: "loadV h strct = Ok sg" by (auto dest: FieldByIndex_loadV)
  from kb have nt: "bt \<noteq> tokenType" "bt \<noteq> tokensType" by (auto dest: bool_not_token)
  have c: "conform E h bt [v] [] = Ok ([if t = bt then v else Imm (VBool bt b)], None)"
    using lv kb kt by (auto simp: gkind_def Convert_def loadV_def)
  have l: "loadV h (if t = bt then v else Imm (VBool bt b)) = Ok (VBool bt b)"
    using lv by (auto simp: loadV_def)
  show ?thesis
    using f lf kb nc nu sg nt c l
    by (simp add: setField_def setFieldAt_def setFieldScalar_def assignScalar_def loadF_def gkind_def
        isIntKind_def isUintKind_def isFloatKind_def decorate_def Let_def)
qed

lemma setField_bool_true:
  assumes f: "FieldByIndex h strct (Index field) = Ok f"
    and lf: "loadLoc h f = Some (VBool bt b0)"
    and kb: "tyKind bt = KBool"
    and nc: "CaptureOf E bt = None" and nu: "UnmarshalTextOf E bt = None"
    and lv: "loadV h v = Ok g" and ng: "gkind g \<noteq> KBool"
  shows "setField E toks strct field [v] h = Ok (storeLoc h f (VBool bt True), None)"
proof -
  from f obtain sg where sg: "loadV h strct = Ok sg" by (auto dest: FieldByIndex_loadV)
  from kb have nt: "bt \<noteq> tokenType" "bt \<noteq> tokensType" by (auto dest: bool_not_token)
  from ng kb have ne: "bt \<noteq> gtype g" by (auto simp: gkind_def)
  have c: "conform E h bt [v] [] = Ok ([ValueOf_bool True], None)"
    using lv kb ng ne by (auto simp: gkind_def isIntKind_def isUintKind_def Let_def)
  show ?thesis
    using f lf kb nc nu sg nt c
    by (simp add: setField_def setFieldAt_def setFieldScalar_def assignScalar_def loadF_def gkind_def
        isIntKind_def isUintKind_def isFloatKind_def decorate_def Let_def ValueOf_bool_def
        loadV_def boolType_def)
qed

lemma setField_bool_many:
  assumes f: "FieldByIndex h strct (Index field) = Ok f"
    and lf: "loadLoc h f = Some (VBool bt b0)"
    and kb: "tyKind bt = KBool"
    and nc: "CaptureOf E bt = None" and nu: "UnmarshalTextOf E bt = None"
    and lv: "valueStrings h vs = Ok ss" and many: "length vs > 1"
  shows "setField E toks strct field vs h = Ok (storeLoc h f (VBool bt True), None)"
proof -
  from f obtain sg where sg: "loadV h strct = Ok sg" by (auto dest: FieldByIndex_loadV)
  from kb have nt: "bt \<noteq> tokenType" "bt \<noteq> tokensType" by (auto dest: bool_not_token)
  from kb have ne: "bt \<noteq> stringType" by (auto simp: stringType_def)
  have c: "conform E h bt [ValueOf_string (concat ss)] [] = Ok ([ValueOf_bool True], None)"
    using kb ne
    by (auto simp: gkind_def isIntKind_def isUintKind_def Let_def ValueOf_string_def loadV_def
        stringType_def)
  show ?thesis
    using f lf kb nc nu sg nt c lv many
    by (simp add: setField_def setFieldAt_def setFieldScalar_def assignScalar_def loadF_def gkind_def
        isIntKind_def isUintKind_def isFloatKind_def decorate_def Let_def ValueOf_bool_def
        loadV_def boolType_def)
qed

text \<open>Any number of captures of non-boolean values into a boolean field of the struct
  in cell \<open>a\<close> leave the field true.\<close>

lemma applyAll_bool_direct:
  assumes "a < length h" "h ! a = VStruct st fs" "i < length fs" "fs ! i = VBool bt b0"
    and "tyKind bt = KBool" "CaptureOf E bt = None" "UnmarshalTextOf E bt = None"
    and "\<forall>e\<in>set es. cfStrct e = Cell a \<and> Index (cfField e) = [i]
           \<and> (\<exists>g. cfFieldValue e = [Imm g] \<and> gkind g \<noteq> KBool)"
    and "es \<noteq> []"
  shows "applyAll E es h = Ok (h[a := VStruct st (fs[i := VBool bt True])], None)"
  using assms
proof (induction es arbitrary: h fs b0)
  case Nil
  then show ?case by simp
next
  case (Cons e es)
  from Cons.prems obtain g where e: "cfStrct e = Cell a" "Index (cfField e) = [i]"
    "cfFieldValue e = [Imm g]" "gkind g \<noteq> KBool" by auto
  let ?h = "h[a := VStruct st (fs[i := VBool bt True])]"
  have fbi: "FieldByIndex h (Cell a) (Index (cfField e)) = Ok (a, [i])"
    using Cons.prems(1-4) e(2) by (simp add: FieldByIndex_def loadLoc_def)
  have lf: "loadLoc h (a, [i]) = Some (VBool bt b0)"
    using Cons.prems(1-4) by (simp add: loadLoc_def)
  have "setField E (cfTokens e) (Cell a) (cfField e) [Imm g] h
          = Ok (storeLoc h (a, [i]) (VBool bt True), None)"
    using fbi lf Cons.prems(5-7) e(4)
    by (intro setField_bool_true [where g = g and ?b0.0 = b0]) (simp_all add: loadV_def)
  then have step: "setField E (cfTokens e) (cfStrct e) (cfField e) (cfFieldValue e) h = Ok (?h, None)"
    using e Cons.prems(2) by (simp add: storeLoc_def)
  show ?case
  proof (cases "es = []")
    case True
    with step show ?thesis by simp
  next
    case False
    have "applyAll E es ?h = Ok (?h[a := VStruct st ((fs[i := VBool bt True])[i := VBool bt True])], None)"
      using Cons.prems False
      by (intro Cons.IH [where ?b0.0 = True]) simp_all
    with step show ?thesis by simp
  qed
qed

text \<open>
  Claim C10: let the destination of \<^verbatim>\<open>setField\<close> be a field that holds a boolean (of a
  type of kind \<^verbatim>\<open>Bool\<close> without user \<^verbatim>\<open>Capture\<close> or \<^verbatim>\<open>UnmarshalText\<close> methods), whatever
  its current content. If the captured value is not boolean, or if several values were
  captured, the field is set to true, whatever the strings are; if the one captured
  value is a boolean, the field gets that boolean. And any number (at least one) of
  deferred captures of a non-boolean value into a boolean field of a struct, applied in
  a row, leave the field true.
\<close>

theorem bool_field_assignment:
  assumes "FieldByIndex h strct (Index field) = Ok f"
    and "loadLoc h f = Some (VBool bt b0)"
    and "tyKind bt = KBool"
    and "CaptureOf E bt = None" and "UnmarshalTextOf E bt = None"
  shows "(loadV h v = Ok g \<and> gkind g \<noteq> KBool \<longrightarrow>
            setField E toks strct field [v] h = Ok (storeLoc h f (VBool bt True), None))
       \<and> (1 < length vs \<and> valueStrings h vs = Ok ss \<longrightarrow>
            setField E toks strct field vs h = Ok (storeLoc h f (VBool bt True), None))
       \<and> (loadV h v = Ok (VBool t b) \<and> tyKind t = KBool \<longrightarrow>
            setField E toks strct field [v] h = Ok (storeLoc h f (VBool bt b), None))
       \<and> (strct = Cell a \<and> Index field = [i] \<and> es \<noteq> []
           \<and> (\<forall>e\<in>set es. cfStrct e = Cell a \<and> Index (cfField e) = [i]
                 \<and> (\<exists>g. cfFieldValue e = [Imm g] \<and> gkind g \<noteq> KBool)) \<longrightarrow>
            applyAll E es h = Ok (storeLoc h f (VBool bt True), None))"
proof (intro conjI impI)
  assume "loadV h v = Ok g \<and> gkind g \<noteq> KBool"
  with assms show "setField E toks strct field [v] h = Ok (storeLoc h f (VBool bt True), None)"
    by (intro setField_bool_true [where g = g and ?b0.0 = b0]) simp_all
next
  assume "1 < length vs \<and> valueStrings h vs = Ok ss"
  with assms show "setField E toks strct field vs h = Ok (storeLoc h f (VBool bt True), None)"
    by (intro setField_bool_many [where ss = ss and ?b0.0 = b0]) simp_all
next
  assume "loadV h v = Ok (VBool t b) \<and> tyKind t = KBool"
  with assms show "setField E toks strct field [v] h = Ok (storeLoc h f (VBool bt b), None)"
    by (intro setField_bool_copy [where t = t and ?b0.0 = b0]) simp_all
next
  assume d: "strct = Cell a \<and> Index field = [i] \<and> es \<noteq> []
     \<and> (\<forall>e\<in>set es. cfStrct e = Cell a \<and> Index (cfField e) = [i]
           \<and> (\<exists>g. cfFieldValue e = [Imm g] \<and> gkind g \<noteq> KBool))"
  with assms(1) obtain st fs where s: "a < length h" "h ! a = VStruct st fs" "i < length fs"
    and f: "f = (a, [i])"
    by (auto simp: FieldByIndex_def loadLoc_def split: option.splits gval.splits if_splits)
  from assms(2) s f have b: "fs ! i = VBool bt b0" by (simp add: loadLoc_def)
  from d have es: "\<forall>e\<in>set es. cfStrct e = Cell a \<and> Index (cfField e) = [i]
           \<and> (\<exists>g. cfFieldValue e = [Imm g] \<and> gkind g \<noteq> KBool)" and ne: "es \<noteq> []" by auto
  have "applyAll E es h = Ok (h[a := VStruct st (fs[i := VBool bt True])], None)"
    using s b assms(3-5) es ne by (rule applyAll_bool_direct)
  with s f show "applyAll E es h = Ok (storeLoc h f (VBool bt True), None)"
    by (simp add: storeLoc_def)
qed

theorem bool_field_assignment_witness:
  "FieldByIndex [VStruct flagType [VBool boolType False]] (Cell 0) (Index flagField) = Ok (0, [0])
   \<and> setField exampleEnv [] (Cell 0) flagField [ValueOf_string ''no'']
        [VStruct flagType [VBool boolType False]]
       = Ok ([VStruct flagType [VBool boolType True]], None)
   \<and> setField exampleEnv [] (Cell 0) flagField [ValueOf_string ''x'', ValueOf_string ''y'']
        [VStruct flagType [VBool boolType False]]
       = Ok ([VStruct flagType [VBool boolType True]], None)
   \<and> setField exampleEnv [] (Cell 0) flagField [ValueOf_bool False]
        [VStruct flagType [VBool boolType False]]
       = Ok ([VStruct flagType [VBool boolType False]], None)
   \<and> applyAll exampleEnv
        [\<lparr>cfTokens = [], cfStrct = Cell 0, cfField = flagField, cfFieldValue = [ValueOf_string ''x'']\<rparr>,
         \<lparr>cfTokens = [], cfStrct = Cell 0, cfField = flagField, cfFieldValue = [ValueOf_string ''false'']\<rparr>]
        [VStruct flagType [VBool boolType False]]
       = Ok ([VStruct flagType [VBool boolType True]], None)"
proof -
  let ?h = "[VStruct flagType [VBool boolType False]]"
  have f: "FieldByIndex ?h (Cell 0) (Index flagField) = Ok (0, [0])"
    by (simp add: eval_defs)
  have l: "loadLoc ?h (0, [0]) = Some (VBool boolType False)"
    by (simp add: eval_defs)
  have k: "tyKind boolType = KBool" by (simp add: boolType_def)
  have c: "CaptureOf exampleEnv boolType = None" by (simp add: exampleEnv_def)
  have u: "UnmarshalTextOf exampleEnv boolType = None" by (simp add: exampleEnv_def)
  note t = bool_field_assignment [OF f l k c u]
  show ?thesis
    using f
      t [of "ValueOf_string ''no''" "VString stringType ''no''" "[]"]
      t [of _ _ "[]" "[ValueOf_string ''x'', ValueOf_string ''y'']" "[''x'', ''y'']"]
      t [of "ValueOf_bool False" _ "[]" _ _ boolType False]
      t [of _ _ _ _ _ _ _ 0 0
           "[\<lparr>cfTokens = [], cfStrct = Cell 0, cfField = flagField, cfFieldValue = [ValueOf_string ''x'']\<rparr>,
             \<lparr>cfTokens = [], cfStrct = Cell 0, cfField = flagField, cfFieldValue = [ValueOf_string ''false'']\<rparr>]"]
    by (simp add: flagField_def ValueOf_string_def ValueOf_bool_def loadV_def storeLoc_def gkind_def
        stringType_def boolType_def)
qed

section \<open>The counter scenario\<close>

lemma gtype_retag [simp]: "gtype (retag g t) = t"
  by (cases g) simp_all

text \<open>For a numeric destination type, every value that \<^verbatim>\<open>conform\<close> returns without an
  error has exactly that type: a value of the same kind is converted, any other value
  is parsed, and a string that does not parse is an error.\<close>

lemma conform_numeric_type:
  assumes "isIntKind (tyKind t) \<or> isUintKind (tyKind t) \<or> isFloatKind (tyKind t)"
    and "conform E h t vs acc = Ok (out, None)"
    and "\<forall>x\<in>set acc. \<exists>g. loadV h x = Ok g \<and> gtype g = t"
  shows "\<forall>x\<in>set out. \<exists>g. loadV h x = Ok g \<and> gtype g = t"
  using assms(2,3)
proof (induction vs arbitrary: acc)
  case Nil
  then show ?case by simp
next
  case (Cons v vs)
  from assms(1) have np: "tyKind t \<noteq> KPtr" and nb: "tyKind t \<noteq> KBool"
    by (auto simp: isIntKind_def isUintKind_def isFloatKind_def)
  show ?case
  proof (cases "loadV h v")
    case (Panic p)
    with Cons.prems show ?thesis by simp
  next
    case (Ok g)
    show ?thesis
    proof (cases "gkind g = tyKind t")
      case True
      show ?thesis
      proof (cases "gtype g = t")
        case same: True
        with Ok True np Cons.prems have "conform E h t vs (acc @ [v]) = Ok (out, None)"
          by simp
        moreover from Ok same Cons.prems(2)
        have "\<forall>x\<in>set (acc @ [v]). \<exists>g. loadV h x = Ok g \<and> gtype g = t" by auto
        ultimately show ?thesis by (rule Cons.IH)
      next
        case False
        from True assms(1) have "Convert g t = Ok (retag g t)"
          by (auto simp: Convert_def Let_def)
        with Ok True False np Cons.prems
        have "conform E h t vs (acc @ [Imm (retag g t)]) = Ok (out, None)"
          by simp
        moreover from Cons.prems(2)
        have "\<forall>x\<in>set (acc @ [Imm (retag g t)]). \<exists>g. loadV h x = Ok g \<and> gtype g = t"
          by (auto simp: loadV_def)
        ultimately show ?thesis by (rule Cons.IH)
      qed
    next
      case False
      with Ok np nb Cons.prems(1) assms(1) obtain x where
        c: "conform E h t vs (acc @ [Imm x]) = Ok (out, None)" and x: "gtype x = t"
        by (auto simp: Let_def sizeOfKind_def isIntKind_def isUintKind_def isFloatKind_def
            split: if_splits prod.splits option.splits)
      from Cons.prems(2) x
      have "\<forall>y\<in>set (acc @ [Imm x]). \<exists>g. loadV h y = Ok g \<and> gtype g = t"
        by (auto simp: loadV_def)
      with c show ?thesis by (rule Cons.IH)
    qed
  qed
qed

text \<open>Hence the scalar tail of \<^verbatim>\<open>setField\<close> never takes the branch
  \<^verbatim>\<open>f.SetInt(f.Int() + 1)\<close> (nor its unsigned and float variants): whenever it returns
  without an error for a numeric field, it has assigned a value of the field's type that
  \<^verbatim>\<open>conform\<close> produced.\<close>

lemma setFieldScalar_numeric_assigns:
  assumes num: "isIntKind (gkind fg) \<or> isUintKind (gkind fg) \<or> isFloatKind (gkind fg)"
    and res: "setFieldScalar E h f fg field vs = Ok (h', None)"
  shows "\<exists>vs1 fv out fvg. conform E h (gtype fg) vs1 [] = Ok (fv # out, None)
           \<and> loadV h fv = Ok fvg \<and> gtype fvg = gtype fg \<and> h' = storeLoc h f fvg"
proof -
  let ?pre = "if length vs > 1
              then bindR (valueStrings h vs) (\<lambda>out. Ok [ValueOf_string (concat out)])
              else Ok vs"
  from res obtain vs1 where v1: "?pre = Ok vs1"
    by (cases ?pre) (simp_all add: setFieldScalar_def)
  with res obtain out2 where c: "conform E h (gtype fg) vs1 [] = Ok (out2, None)"
    by (cases "conform E h (gtype fg) vs1 []") (auto simp: setFieldScalar_def split: option.splits)
  with res v1 obtain fv out where o: "out2 = fv # out"
    by (cases out2) (auto simp: setFieldScalar_def)
  from num have numt: "isIntKind (tyKind (gtype fg)) \<or> isUintKind (tyKind (gtype fg))
      \<or> isFloatKind (tyKind (gtype fg))"
    by (simp add: gkind_def)
  from conform_numeric_type [OF numt c] o obtain fvg where
    l: "loadV h fv = Ok fvg" and ty: "gtype fvg = gtype fg"
    by auto
  from num ty have "assignScalar E h f fg field fv fvg = Ok (storeLoc h f fvg, None)"
    by (auto simp: assignScalar_def Let_def)
  with res v1 c o l have "h' = storeLoc h f fvg"
    by (simp add: setFieldScalar_def)
  with c o l ty show ?thesis by blast
qed

text \<open>\<^verbatim>\<open>strconv.ParseInt("+++", 0, 64)\<close> is a syntax error.\<close>

lemma ParseInt_plus_plus_plus: "ParseInt 64 ''+++'' 64 = (0, Some ErrSyntax)"
  by (simp add: ParseInt_def ParseUint_def digitVal_def lower_def)

text \<open>\<^verbatim>\<open>ParseInt\<close> hands its bit size to \<^verbatim>\<open>ParseUint\<close>: at 8 bits \<^verbatim>\<open>"300x"\<close> is out of range
  before the \<^verbatim>\<open>x\<close> is read, and \<^verbatim>\<open>"128"\<close> is out of range for the signed type.\<close>

lemma ParseInt_8_bits:
  "ParseInt 64 ''300x'' 8 = (127, Some ErrRange)"
  "ParseInt 64 ''128'' 8 = (127, Some ErrRange)"
  "ParseInt 64 ''-128'' 8 = (-128, None)"
  "ParseInt 64 ''12x'' 8 = (0, Some ErrSyntax)"
  by (simp_all add: ParseInt_def ParseUint_def digitVal_def lower_def underscoreOK_def)

text \<open>
  Claim C1 at the input of the specification's scenario 1. The repetition returns the
  three values \<^verbatim>\<open>"+"\<close>, the capture defers them, and the struct node applies them:
  \<^verbatim>\<open>setField\<close> coalesces them to \<^verbatim>\<open>"+++"\<close> and \<^verbatim>\<open>conform\<close> calls
  \<^verbatim>\<open>strconv.ParseInt("+++", 0, 64)\<close>, whose error it returns as
  \<^verbatim>\<open>invalid integer "+++"\<close>. The switch of \<^verbatim>\<open>setField\<close> that would increment the field
  is never reached (and by \<open>setFieldScalar_numeric_assigns\<close> its increment branch never
  runs): the struct node returns that error, and \<open>Count\<close> is still \<open>0\<close>.
\<close>

theorem counter_scenario_returns_error:
  "Parse exampleEnv counterGrammar (newContext plusTokens) rootParent [] =
     Ok (Some [Cell 0],
         Some (Wrapf \<lparr>Filename = [], Offset = 0, Line = 1, Column = 1\<rparr>
                 (InvalidInteger ''+++'' ErrSyntax) ''Counter.Count''),
         (newContext plusTokens)
           \<lparr>lexer := (newLexer plusTokens)\<lparr>rawCursor := 3, cursor := 3\<rparr>,
            deferred := [\<lparr>cfTokens = plusTokens, cfStrct = Cell 0, cfField = countField,
                           cfFieldValue = [ValueOf_string ''+'', ValueOf_string ''+'',
                                           ValueOf_string ''+'']\<rparr>]\<rparr>,
         [VStruct counterType [VInt intType 0]])"
  by (simp add: eval_defs)

section \<open>Struct nodes\<close>

lemma strct_body_error:
  assumes "Peek (lexer ctx) 0 = (t, None)"
    and "maybeInject (h @ [Zero styp]) (Cell (length h)) posIdx (ValueOf_Position (Pos t)) = Ok h2"
    and "Parse E body ctx (Cell (length h)) h2 = Ok (out, Some err, ctx1, h3)"
    and "Apply E ctx1 h3 = Ok (ctx2, h4, aerr)"
  shows "Parse E (Strct styp body tokIdx posIdx endIdx) ctx parent h =
           Ok (Some [Cell (length h)], Some err, MaybeUpdateError ctx2 err, h4)"
  using assms by (cases out) (simp_all add: New_def Let_def)

lemma strct_body_error_apply_panics:
  assumes "Peek (lexer ctx) 0 = (t, None)"
    and "maybeInject (h @ [Zero styp]) (Cell (length h)) posIdx (ValueOf_Position (Pos t)) = Ok h2"
    and "Parse E body ctx (Cell (length h)) h2 = Ok (out, Some err, ctx1, h3)"
    and "Apply E ctx1 h3 = Panic p"
  shows "Parse E (Strct styp body tokIdx posIdx endIdx) ctx parent h = Panic p"
  using assms by (cases out) (simp_all add: New_def Let_def)

lemma strct_body_nil:
  assumes "Peek (lexer ctx) 0 = (t, None)"
    and "maybeInject (h @ [Zero styp]) (Cell (length h)) posIdx (ValueOf_Position (Pos t)) = Ok h2"
    and "Parse E body ctx (Cell (length h)) h2 = Ok (None, None, ctx1, h3)"
  shows "Parse E (Strct styp body tokIdx posIdx endIdx) ctx parent h = Ok (None, None, ctx1, h3)"
  using assms by (simp add: New_def Let_def)

text \<open>The body of \<open>flagGrammar\<close> on the input \<^verbatim>\<open>z\<close>: the optional \<^verbatim>\<open>"x"\<close> matches zero
  times and returns the empty non-nil list, which the capture defers; the required
  \<^verbatim>\<open>"y"\<close> is missing, so the sequence returns an error.\<close>

lemma flag_body_returns_error:
  "Parse exampleEnv
     (Sequence [(True, Capture flagField (Optional (Literal ''x'' (-1) []))),
                (False, Literal ''y'' (-1) [])])
     (newContext [mkToken 1 ''z'' 0]) (Cell 0) [VStruct flagType [VBool boolType False]] =
   Ok (Some [Cell 0],
       Some (UnexpectedTokenError (mkToken 1 ''z'' 0) (Sequence [(False, Literal ''y'' (-1) [])])),
       (newContext [mkToken 1 ''z'' 0])
         \<lparr>deferred := [\<lparr>cfTokens = [], cfStrct = Cell 0, cfField = flagField, cfFieldValue = []\<rparr>]\<rparr>,
       [VStruct flagType [VBool boolType False]])"
  by (simp add: eval_defs)

text \<open>
  Claim C3 at a failing input. The body of the struct node returns an error, as shown
  above, and the struct node runs its best-effort \<^verbatim>\<open>ctx.Apply()\<close>. The deferred capture
  holds an empty value list; \<^verbatim>\<open>setField\<close> reaches \<^verbatim>\<open>fv := fieldValue[0]\<close> for the boolean
  field and panics with an index out of range. The struct node does not return the list
  with the partial value and the error: the panic leaves \<^verbatim>\<open>strct.Parse\<close>.
\<close>

theorem struct_partial_ast_apply_panics:
  "Parse exampleEnv flagGrammar (newContext [mkToken 1 ''z'' 0]) rootParent [] =
     Panic (RuntimePanic ''index out of range [0] with length 0'')"
  by (simp add: eval_defs)

end
